theory Spec2Isabelle
  imports Complex_Main "HOL-Library.AList"
begin

section \<open>JavaScript values\<close>

text \<open>
  The handlers receive \<open>req.body\<close>, the value \<open>express.json()\<close> parsed from the request
  (or \<open>undefined\<close> when nothing was parsed), and inspect it with \<open>typeof\<close>, \<open>!\<close>,
  \<open>=== undefined\<close>, \<open>.trim()\<close>, \<open>Number(...)\<close>, \<open>Object.keys\<close>. This section models the
  values and exactly these primitives.

  A number is an IEEE double: NaN, an infinity, or a finite value, kept as the rational it
  denotes (\<open>-0\<close> is \<open>Fin 0\<close>: the code never distinguishes the two). Strings are HOL
  strings, so a code unit is below 256. An object is the list of its own properties in
  \<open>Object.keys\<close> order. \<open>JDate\<close> is the \<open>Date\<close> the handlers create for the timestamps
  (milliseconds); it never occurs in a parsed body.
\<close>

datatype jsnum = NaN | PosInf | NegInf | Fin rat

datatype jsval =
    JUndefined
  | JNull
  | JBool bool
  | JNum jsnum
  | JStr string
  | JArr "jsval list"
  | JObj "(string \<times> jsval) list"
  | JDate nat

fun typeof :: "jsval \<Rightarrow> string" where
  "typeof JUndefined = ''undefined''"
| "typeof JNull = ''object''"
| "typeof (JBool _) = ''boolean''"
| "typeof (JNum _) = ''number''"
| "typeof (JStr _) = ''string''"
| "typeof (JArr _) = ''object''"
| "typeof (JObj _) = ''object''"
| "typeof (JDate _) = ''object''"

text \<open>\<open>truthy v\<close> is \<open>!!v\<close>.\<close>

fun truthy :: "jsval \<Rightarrow> bool" where
  "truthy JUndefined = False"
| "truthy JNull = False"
| "truthy (JBool b) = b"
| "truthy (JNum n) = (n \<noteq> NaN \<and> n \<noteq> Fin 0)"
| "truthy (JStr s) = (s \<noteq> [])"
| "truthy (JArr _) = True"
| "truthy (JObj _) = True"
| "truthy (JDate _) = True"

text \<open>\<open>nullish v\<close> is \<open>v == null\<close>: the values on which a property read throws.\<close>

fun nullish :: "jsval \<Rightarrow> bool" where
  "nullish JUndefined = True"
| "nullish JNull = True"
| "nullish _ = False"

text \<open>
  \<open>get_prop v k\<close> is \<open>v.k\<close> on a value that is not nullish, for the five names the handlers
  read (name, description, quantity, price, category): an object yields its own property
  or \<open>undefined\<close>; arrays, strings, numbers and booleans have no property of these names.
\<close>

fun get_prop :: "jsval \<Rightarrow> string \<Rightarrow> jsval" where
  "get_prop (JObj kvs) k = (case map_of kvs k of Some v \<Rightarrow> v | None \<Rightarrow> JUndefined)"
| "get_prop _ k = JUndefined"

text \<open>\<open>a ?? b\<close>\<close>

definition nullish_or :: "jsval \<Rightarrow> jsval \<Rightarrow> jsval" where
  "nullish_or a b = (if nullish a then b else a)"

subsection \<open>Strings\<close>

text \<open>White space and line terminators that \<open>String.prototype.trim\<close> strips, below 256.\<close>

definition is_ws :: "char \<Rightarrow> bool" where
  "is_ws c = (c \<in> set [CHR 0x09, CHR 0x0A, CHR 0x0B, CHR 0x0C, CHR 0x0D, CHR 0x20, CHR 0xA0])"

definition trim :: "string \<Rightarrow> string" where
  "trim s = rev (dropWhile is_ws (rev (dropWhile is_ws s)))"

text \<open>
  \<open>v.trim()\<close>. On a value that is not a string the call is a TypeError; every call in
  the handlers is guarded by \<open>typeof v === "string"\<close> (or by a validation that established
  it), so that case is never evaluated and is given the empty string here.
\<close>

fun trimmed :: "jsval \<Rightarrow> string" where
  "trimmed (JStr s) = trim s"
| "trimmed _ = []"

text \<open>Decimal rendering of an array index, for \<open>Object.keys\<close> of an array.\<close>

fun digit_char :: "nat \<Rightarrow> char" where
  "digit_char n = ''0123456789'' ! (n mod 10)"

fun show_nat :: "nat \<Rightarrow> string" where
  "show_nat n = (if n < 10 then [digit_char n] else show_nat (n div 10) @ [digit_char n])"

declare show_nat.simps [simp del]

fun keys :: "jsval \<Rightarrow> string list" where
  "keys (JObj kvs) = map fst kvs"
| "keys (JArr xs) = map show_nat [0..<length xs]"
| "keys (JStr s) = map show_nat [0..<length s]"
| "keys _ = []"

subsection \<open>\<open>Number(v)\<close>\<close>

definition is_digit :: "char \<Rightarrow> bool" where
  "is_digit c = (c \<in> set ''0123456789'')"

definition is_hex_digit :: "char \<Rightarrow> bool" where
  "is_hex_digit c = (c \<in> set ''0123456789abcdefABCDEF'')"

definition hex_val :: "char \<Rightarrow> nat" where
  "hex_val c =
     (if c \<in> set ''0123456789'' then of_char c - 48
      else if c \<in> set ''abcdef'' then of_char c - 87
      else of_char c - 55)"

definition radix_val :: "nat \<Rightarrow> string \<Rightarrow> nat" where
  "radix_val b ds = foldl (\<lambda>a c. b * a + hex_val c) 0 ds"

text \<open>
  The value of a literal becomes a double: beyond the largest double it is an infinity,
  below half the smallest subnormal it is zero. The rounding of the mantissa is left
  out: the handlers only ask whether the number is NaN and whether it is negative.
\<close>

definition to_double :: "rat \<Rightarrow> jsnum" where
  "to_double q =
     (if 2 ^ 1024 - 2 ^ 970 \<le> \<bar>q\<bar> then (if 0 < q then PosInf else NegInf)
      else if \<bar>q\<bar> \<le> 1 / 2 ^ 1075 then Fin 0
      else Fin q)"

definition scale10 :: "rat \<Rightarrow> int \<Rightarrow> rat" where
  "scale10 q e = (if 0 \<le> e then q * 10 ^ nat e else q / 10 ^ nat (- e))"

text \<open>ExponentPart, or nothing: \<open>e\<close> or \<open>E\<close>, an optional sign, at least one digit.\<close>

fun exponent :: "string \<Rightarrow> int option" where
  "exponent [] = Some 0"
| "exponent (c # r) =
     (if c = CHR ''e'' \<or> c = CHR ''E'' then
        (let (neg, ds) =
               (case r of
                  d # t \<Rightarrow> if d = CHR ''-'' then (True, t)
                           else if d = CHR ''+'' then (False, t) else (False, r)
                | [] \<Rightarrow> (False, r))
         in if ds \<noteq> [] \<and> list_all is_digit ds
            then Some (if neg then - int (radix_val 10 ds) else int (radix_val 10 ds))
            else None)
      else None)"

text \<open>
  StrUnsignedDecimalLiteral without \<open>Infinity\<close>: digits, an optional fraction, an optional
  exponent, with a digit before or after the point.
\<close>

definition unsigned_decimal :: "string \<Rightarrow> rat option" where
  "unsigned_decimal s =
     (let ip = takeWhile is_digit s;
          r1 = dropWhile is_digit s;
          (fp, r2) = (case r1 of
                        c # t \<Rightarrow> if c = CHR ''.'' then (takeWhile is_digit t, dropWhile is_digit t)
                                 else ([], r1)
                      | [] \<Rightarrow> ([], r1))
      in if ip = [] \<and> fp = [] then None
         else (case exponent r2 of
                 None \<Rightarrow> None
               | Some e \<Rightarrow>
                   Some (scale10 (of_nat (radix_val 10 ip)
                                  + of_nat (radix_val 10 fp) / 10 ^ length fp) e)))"

text \<open>\<open>0x\<close>, \<open>0o\<close>, \<open>0b\<close> literals (no sign).\<close>

definition non_decimal :: "string \<Rightarrow> nat option" where
  "non_decimal s =
     (case s of
        z # x # ds \<Rightarrow>
          if z = CHR ''0'' \<and> ds \<noteq> [] then
            (if (x = CHR ''x'' \<or> x = CHR ''X'') \<and> list_all is_hex_digit ds
               then Some (radix_val 16 ds)
             else if (x = CHR ''o'' \<or> x = CHR ''O'') \<and> list_all (\<lambda>c. c \<in> set ''01234567'') ds
               then Some (radix_val 8 ds)
             else if (x = CHR ''b'' \<or> x = CHR ''B'') \<and> list_all (\<lambda>c. c \<in> set ''01'') ds
               then Some (radix_val 2 ds)
             else None)
          else None
      | _ \<Rightarrow> None)"

text \<open>
  \<open>Number(s)\<close> for a string: surrounding white space is dropped; the empty string is 0;
  what is not a numeric literal is NaN.
\<close>

definition StringToNumber :: "string \<Rightarrow> jsnum" where
  "StringToNumber s =
     (let t = trim s in
      if t = [] then Fin 0
      else (case non_decimal t of
              Some n \<Rightarrow> to_double (of_nat n)
            | None \<Rightarrow>
                (let (neg, r) = (if hd t = CHR ''-'' then (True, tl t)
                                 else if hd t = CHR ''+'' then (False, tl t) else (False, t))
                 in if r = ''Infinity'' then (if neg then NegInf else PosInf)
                    else (case unsigned_decimal r of
                            None \<Rightarrow> NaN
                          | Some q \<Rightarrow> to_double (if neg then - q else q)))))"

text \<open>
  \<open>Number(v)\<close> on an array or object first converts it to a primitive: \<open>valueOf\<close> gives
  the object back, so \<open>toString\<close> decides. A parsed object with an own property named
  \<open>toString\<close> has no callable \<open>toString\<close> (a parsed value is never a function), and the
  conversion throws a TypeError; without one it is \<open>"[object Object]"\<close>. An array joins
  the strings of its elements (\<open>null\<close> and \<open>undefined\<close> elements are the empty string and
  are not converted), so it throws when converting an element throws.
\<close>

fun conversion_throws :: "jsval \<Rightarrow> bool" where
  "conversion_throws (JObj kvs) = (''toString'' \<in> set (map fst kvs))"
| "conversion_throws (JArr xs) = list_ex conversion_throws xs"
| "conversion_throws _ = False"

text \<open>
  The number \<open>Number(v)\<close> yields when the conversion does not throw. An array is converted
  through its string: the empty array is 0, a one-element array converts like its
  element's string, and two or more elements give a string with a comma, which is NaN;
  a plain object is \<open>"[object Object]"\<close>, NaN.
\<close>

fun number_value :: "jsval \<Rightarrow> jsnum" where
  "number_value JUndefined = NaN"
| "number_value JNull = Fin 0"
| "number_value (JBool b) = (if b then Fin 1 else Fin 0)"
| "number_value (JNum n) = n"
| "number_value (JStr s) = StringToNumber s"
| "number_value (JObj _) = NaN"
| "number_value (JDate t) = Fin (of_nat t)"
| "number_value (JArr []) = Fin 0"
| "number_value (JArr [JUndefined]) = Fin 0"
| "number_value (JArr [JNull]) = Fin 0"
| "number_value (JArr [JBool _]) = NaN"
| "number_value (JArr [JNum n]) = n"
| "number_value (JArr [JStr s]) = StringToNumber s"
| "number_value (JArr [JArr xs]) = number_value (JArr xs)"
| "number_value (JArr [JObj _]) = NaN"
| "number_value (JArr [JDate _]) = NaN"
| "number_value (JArr (_ # _ # _)) = NaN"

text \<open>\<open>Number(v)\<close>; \<open>None\<close> is the TypeError.\<close>

definition ToNumber :: "jsval \<Rightarrow> jsnum option" where
  "ToNumber v = (if conversion_throws v then None else Some (number_value v))"

text \<open>\<open>Number.isNaN(p)\<close> and \<open>p < 0\<close>.\<close>

fun isNaN :: "jsnum \<Rightarrow> bool" where
  "isNaN NaN = True"
| "isNaN _ = False"

fun negative :: "jsnum \<Rightarrow> bool" where
  "negative (Fin q) = (q < 0)"
| "negative NegInf = True"
| "negative _ = False"

text \<open>\<open>v?.k\<close>: \<open>undefined\<close> on a nullish value, the property otherwise.\<close>

definition opt_prop :: "jsval \<Rightarrow> string \<Rightarrow> jsval" where
  "opt_prop v k = (if nullish v then JUndefined else get_prop v k)"

text \<open>The own enumerable properties that \<open>{...v}\<close> copies.\<close>

fun spread :: "jsval \<Rightarrow> (string \<times> jsval) list" where
  "spread (JObj kvs) = kvs"
| "spread (JArr xs) = zip (map show_nat [0..<length xs]) xs"
| "spread (JStr s) = zip (map show_nat [0..<length s]) (map (\<lambda>c. JStr [c]) s)"
| "spread _ = []"

text \<open>\<open>xs.join(sep)\<close> on an array of strings.\<close>

fun join :: "string \<Rightarrow> string list \<Rightarrow> string" where
  "join sep [] = []"
| "join sep [x] = x"
| "join sep (x # y # r) = x @ sep @ join sep (y # r)"

section \<open>What a handler does with a body\<close>

text \<open>
  Each handler either answers 400 with a message (\<open>Reject\<close>), or hands a document to the
  storage engine (\<open>Payload\<close>: the document of \<open>insertOne\<close>, or the \<open>$set\<close> document of an
  update, its fields in order), or an exception reaches its \<open>catch\<close> and it answers 500
  (\<open>Throw\<close>). \<open>NoRoute\<close> is the final 404 middleware, for a verb the application does
  not route.
\<close>

type_synonym fields = "(string \<times> jsval) list"

datatype outcome = Reject string | Payload fields | Throw | NoRoute

section \<open>The description/quantity application (controllers/items.controllers.js)\<close>

definition validateItemFull :: "jsval \<Rightarrow> string option" where
  "validateItemFull body =
     (if \<not> truthy body \<or> typeof body \<noteq> ''object'' then Some ''Body must be a JSON object''
      else if \<not> truthy (get_prop body ''name'') \<or> typeof (get_prop body ''name'') \<noteq> ''string''
              \<or> \<not> truthy (JStr (trimmed (get_prop body ''name'')))
        then Some ''Field 'name' is required and must be a non-empty string''
      else if get_prop body ''description'' \<noteq> JUndefined
              \<and> typeof (get_prop body ''description'') \<noteq> ''string''
        then Some ''Field 'description' must be a string''
      else if get_prop body ''quantity'' \<noteq> JUndefined
              \<and> typeof (get_prop body ''quantity'') \<noteq> ''number''
        then Some ''Field 'quantity' must be a number''
      else None)"

definition allowed :: "string list" where
  "allowed = [''name'', ''description'', ''quantity'']"

definition validateItemPartial :: "jsval \<Rightarrow> string option" where
  "validateItemPartial body =
     (if \<not> truthy body \<or> typeof body \<noteq> ''object'' then Some ''Body must be a JSON object''
      else if length (keys body) = 0 then Some ''PATCH body cannot be empty''
      else (case find (\<lambda>k. k \<notin> set allowed) (keys body) of
              Some k \<Rightarrow> Some (''Unknown field '' @ [CHR 0x27] @ k @ [CHR 0x27])
            | None \<Rightarrow>
                if get_prop body ''name'' \<noteq> JUndefined
                   \<and> (typeof (get_prop body ''name'') \<noteq> ''string''
                        \<or> \<not> truthy (JStr (trimmed (get_prop body ''name''))))
                  then Some ''Field 'name' must be a non-empty string''
                else if get_prop body ''description'' \<noteq> JUndefined
                        \<and> typeof (get_prop body ''description'') \<noteq> ''string''
                  then Some ''Field 'description' must be a string''
                else if get_prop body ''quantity'' \<noteq> JUndefined
                        \<and> typeof (get_prop body ''quantity'') \<noteq> ''number''
                  then Some ''Field 'quantity' must be a number''
                else None))"

text \<open>\<open>createItem\<close> up to the document it inserts; the two dates are its two \<open>new Date()\<close>.\<close>

definition createItem :: "jsval \<Rightarrow> nat \<Rightarrow> nat \<Rightarrow> outcome" where
  "createItem body t1 t2 =
     (case validateItemFull body of
        Some e \<Rightarrow> Reject e
      | None \<Rightarrow>
          Payload [(''name'', JStr (trimmed (get_prop body ''name''))),
                   (''description'', nullish_or (get_prop body ''description'') (JStr [])),
                   (''quantity'', nullish_or (get_prop body ''quantity'') (JNum (Fin 0))),
                   (''createdAt'', JDate t1),
                   (''updatedAt'', JDate t2)])"

text \<open>\<open>putItem\<close> after the identifier check, up to the \<open>$set\<close> document.\<close>

definition putItem_set :: "jsval \<Rightarrow> nat \<Rightarrow> outcome" where
  "putItem_set body t =
     (case validateItemFull body of
        Some e \<Rightarrow> Reject e
      | None \<Rightarrow>
          Payload [(''name'', JStr (trimmed (get_prop body ''name''))),
                   (''description'', nullish_or (get_prop body ''description'') (JStr [])),
                   (''quantity'', nullish_or (get_prop body ''quantity'') (JNum (Fin 0))),
                   (''updatedAt'', JDate t)])"

text \<open>
  \<open>patchItem\<close> after the identifier check, up to the \<open>$set\<close> document: the body spread,
  \<open>updatedAt\<close> assigned, and the name trimmed when it is truthy.
\<close>

definition patchItem_set :: "jsval \<Rightarrow> nat \<Rightarrow> outcome" where
  "patchItem_set body t =
     (case validateItemPartial body of
        Some e \<Rightarrow> Reject e
      | None \<Rightarrow>
          (let patchDoc = AList.update ''updatedAt'' (JDate t) (spread body)
           in Payload (if truthy (get_prop (JObj patchDoc) ''name'')
                       then AList.update ''name'' (JStr (trimmed (get_prop (JObj patchDoc) ''name'')))
                              patchDoc
                       else patchDoc)))"

section \<open>The products application (server.js)\<close>

text \<open>
  Both handlers start with \<open>const { name, price, category } = req.body\<close>, which throws on
  a nullish body, and call \<open>Number(price)\<close> after the name check, which throws on a price
  that cannot be converted; either exception reaches the \<open>catch\<close>.
\<close>

definition post_products :: "jsval \<Rightarrow> nat \<Rightarrow> nat \<Rightarrow> outcome" where
  "post_products body t1 t2 =
     (if nullish body then Throw
      else
        (let name = get_prop body ''name'';
             price = get_prop body ''price'';
             category = get_prop body ''category''
         in if \<not> truthy name \<or> typeof name \<noteq> ''string'' \<or> \<not> truthy (JStr (trimmed name))
              then Reject ''name is required''
            else
              (case (if price \<noteq> JUndefined then ToNumber price else Some (Fin 0)) of
                 None \<Rightarrow> Throw
               | Some p \<Rightarrow>
                   if isNaN p \<or> negative p then Reject ''price must be a non-negative number''
                   else Payload [(''name'', JStr (trimmed name)),
                                 (''price'', JNum p),
                                 (''category'',
                                    if typeof category = ''string'' \<and> truthy (JStr (trimmed category))
                                    then JStr (trimmed category) else JStr ''general''),
                                 (''createdAt'', JDate t1),
                                 (''updatedAt'', JDate t2)])))"

text \<open>
  \<open>PUT /api/products/:id\<close> after the identifier check. The handler fills \<open>update\<close> field
  by field and returns (or throws) at the first failing step; nothing but \<open>update\<close> is
  touched on the way, so the steps are listed in their order and the object is built
  after them. \<open>p\<close> is the \<open>Number(price)\<close> of the price block, which is evaluated only when
  the price is present.
\<close>

definition put_products_set :: "jsval \<Rightarrow> nat \<Rightarrow> outcome" where
  "put_products_set body t =
     (if nullish body then Throw
      else
        (let name = get_prop body ''name'';
             price = get_prop body ''price'';
             category = get_prop body ''category''
         in if name \<noteq> JUndefined \<and> (typeof name \<noteq> ''string'' \<or> \<not> truthy (JStr (trimmed name)))
              then Reject ''name must be a non-empty string''
            else
              (case (if price \<noteq> JUndefined then ToNumber price else Some (Fin 0)) of
                 None \<Rightarrow> Throw
               | Some p \<Rightarrow>
                   if price \<noteq> JUndefined \<and> (isNaN p \<or> negative p)
                     then Reject ''price must be a non-negative number''
                   else if category \<noteq> JUndefined \<and> typeof category \<noteq> ''string''
                     then Reject ''category must be a string''
                   else Payload
                          ((if name \<noteq> JUndefined then [(''name'', JStr (trimmed name))] else [])
                           @ (if price \<noteq> JUndefined then [(''price'', JNum p)] else [])
                           @ (if category \<noteq> JUndefined
                              then [(''category'',
                                     if truthy (JStr (trimmed category))
                                     then JStr (trimmed category) else JStr ''general'')]
                              else [])
                           @ [(''updatedAt'', JDate t)]))))"

section \<open>The items application with price and category\<close>

text \<open>\<open>pickAllowedFields\<close> reads \<open>body.name\<close> first: \<open>None\<close> is the TypeError on a nullish body.\<close>

definition pickAllowedFields :: "jsval \<Rightarrow> fields option" where
  "pickAllowedFields body =
     (if nullish body then None
      else Some
        ((if get_prop body ''name'' \<noteq> JUndefined then [(''name'', get_prop body ''name'')] else [])
         @ (if get_prop body ''price'' \<noteq> JUndefined then [(''price'', get_prop body ''price'')] else [])
         @ (if get_prop body ''category'' \<noteq> JUndefined
            then [(''category'', get_prop body ''category'')] else [])))"

text \<open>
  \<open>validateItemForCreate\<close> collects its messages; \<open>None\<close> is the TypeError of
  \<open>Number(body.price)\<close>, which is evaluated whenever the price is present, whatever the
  earlier checks found.
\<close>

definition validateItemForCreate :: "jsval \<Rightarrow> string list option" where
  "validateItemForCreate body =
     (case (if opt_prop body ''price'' \<noteq> JUndefined then ToNumber (get_prop body ''price'')
            else Some (Fin 0)) of
        None \<Rightarrow> None
      | Some p \<Rightarrow>
          Some
            ((if \<not> truthy body \<or> typeof body \<noteq> ''object'' then [''body must be a JSON object'']
              else [])
             @ (if \<not> (truthy (opt_prop body ''name'') \<and> typeof (get_prop body ''name'') = ''string''
                       \<and> truthy (JStr (trimmed (get_prop body ''name''))))
                then [''name is required (non-empty string)''] else [])
             @ (if opt_prop body ''price'' \<noteq> JUndefined \<and> (isNaN p \<or> negative p)
                then [''price must be a non-negative number''] else [])
             @ (if opt_prop body ''category'' \<noteq> JUndefined
                   \<and> typeof (get_prop body ''category'') \<noteq> ''string''
                then [''category must be a string''] else [])))"

text \<open>
  \<open>normalizeItem\<close>: \<open>Payload\<close> is \<open>{ ok: true, value }\<close>, \<open>Reject\<close> is \<open>{ ok: false, error }\<close>,
  \<open>Throw\<close> an exception that leaves the function. As in the products PUT, the function
  fills \<open>update\<close> between its steps and touches nothing else, so the steps are listed in
  their order and \<open>update\<close> is built after them; \<open>p\<close> is the \<open>Number(data.price)\<close> of the
  price block, evaluated only when the price is present.
\<close>

definition normalizeItem :: "jsval \<Rightarrow> bool \<Rightarrow> outcome" where
  "normalizeItem body requireAllFields =
     (case pickAllowedFields body of
        None \<Rightarrow> Throw
      | Some d \<Rightarrow>
          (let name = get_prop (JObj d) ''name'';
               price = get_prop (JObj d) ''price'';
               category = get_prop (JObj d) ''category''
           in if requireAllFields \<and> name = JUndefined
                then Reject ''PUT requires full item: name is required''
              else if name \<noteq> JUndefined
                      \<and> (typeof name \<noteq> ''string'' \<or> \<not> truthy (JStr (trimmed name)))
                then Reject ''name must be a non-empty string''
              else
                (case (if price \<noteq> JUndefined then ToNumber price else Some (Fin 0)) of
                   None \<Rightarrow> Throw
                 | Some p \<Rightarrow>
                     if price \<noteq> JUndefined \<and> (isNaN p \<or> negative p)
                       then Reject ''price must be a non-negative number''
                     else if category \<noteq> JUndefined \<and> typeof category \<noteq> ''string''
                       then Reject ''category must be a string''
                     else Payload
                            ((if name \<noteq> JUndefined then [(''name'', JStr (trimmed name))] else [])
                             @ (if price \<noteq> JUndefined then [(''price'', JNum p)] else [])
                             @ (if category \<noteq> JUndefined
                                then [(''category'',
                                       if truthy (JStr (trimmed category))
                                       then JStr (trimmed category) else JStr ''general'')]
                                else [])))))"

text \<open>\<open>POST /api/items\<close> up to the document it inserts; one \<open>new Date()\<close> for both stamps.\<close>

definition post_items :: "jsval \<Rightarrow> nat \<Rightarrow> outcome" where
  "post_items body now =
     (case validateItemForCreate body of
        None \<Rightarrow> Throw
      | Some errors \<Rightarrow>
          if length errors \<noteq> 0 then Reject (join ''; '' errors)
          else
            (case (if get_prop body ''price'' \<noteq> JUndefined then ToNumber (get_prop body ''price'')
                   else Some (Fin 0)) of
               None \<Rightarrow> Throw
             | Some price \<Rightarrow>
                 (let category = get_prop body ''category''
                  in Payload [(''name'', JStr (trimmed (get_prop body ''name''))),
                              (''price'', JNum price),
                              (''category'',
                                 if typeof category = ''string'' \<and> truthy (JStr (trimmed category))
                                 then JStr (trimmed category) else JStr ''general''),
                              (''createdAt'', JDate now),
                              (''updatedAt'', JDate now)])))"

text \<open>\<open>PUT /api/items/:id\<close> after the identifier check, up to the \<open>$set\<close> document.\<close>

definition put_items_set :: "jsval \<Rightarrow> nat \<Rightarrow> outcome" where
  "put_items_set body now =
     (case normalizeItem body True of
        Payload v \<Rightarrow>
          Payload [(''name'', get_prop (JObj v) ''name''),
                   (''price'',
                      if get_prop (JObj v) ''price'' \<noteq> JUndefined then get_prop (JObj v) ''price''
                      else JNum (Fin 0)),
                   (''category'',
                      if get_prop (JObj v) ''category'' \<noteq> JUndefined
                      then get_prop (JObj v) ''category'' else JStr ''general''),
                   (''updatedAt'', JDate now)]
      | other \<Rightarrow> other)"

text \<open>\<open>PATCH /api/items/:id\<close> after the identifier check, up to the \<open>$set\<close> document.\<close>

definition patch_items_set :: "jsval \<Rightarrow> nat \<Rightarrow> outcome" where
  "patch_items_set body now =
     (case normalizeItem body False of
        Payload update \<Rightarrow>
          if length (keys (JObj update)) = 0 then Reject ''PATCH requires at least one field''
          else Payload (AList.update ''updatedAt'' (JDate now) update)
      | other \<Rightarrow> other)"

section \<open>The three applications side by side\<close>

datatype variant = Controllers | Products | Items

datatype mode = Create | Replace | Partial

text \<open>
  What the handler of an application for a mode makes of a body, given the clock readings
  of its \<open>new Date()\<close> calls. The products application routes no PATCH.
\<close>

fun handle :: "variant \<Rightarrow> mode \<Rightarrow> jsval \<Rightarrow> nat \<Rightarrow> nat \<Rightarrow> outcome" where
  "handle Controllers Create body t1 t2 = createItem body t1 t2"
| "handle Controllers Replace body t1 t2 = putItem_set body t1"
| "handle Controllers Partial body t1 t2 = patchItem_set body t1"
| "handle Products Create body t1 t2 = post_products body t1 t2"
| "handle Products Replace body t1 t2 = put_products_set body t1"
| "handle Products Partial body t1 t2 = NoRoute"
| "handle Items Create body t1 t2 = post_items body t1"
| "handle Items Replace body t1 t2 = put_items_set body t1"
| "handle Items Partial body t1 t2 = patch_items_set body t1"

text \<open>The secondary string field and the numeric field of each application.\<close>

fun secondary :: "variant \<Rightarrow> string" where
  "secondary Controllers = ''description''"
| "secondary Products = ''category''"
| "secondary Items = ''category''"

fun numeric :: "variant \<Rightarrow> string" where
  "numeric Controllers = ''quantity''"
| "numeric Products = ''price''"
| "numeric Items = ''price''"

text \<open>The value a full document gets for a secondary field the body leaves out.\<close>

fun default_secondary :: "variant \<Rightarrow> jsval" where
  "default_secondary Controllers = JStr []"
| "default_secondary Products = JStr ''general''"
| "default_secondary Items = JStr ''general''"

section \<open>Identifiers\<close>

text \<open>
  Modelled from the spec: \<open>ObjectId\<close> is the identifier class of the storage driver, which
  is not part of the repository. An identifier is twelve bytes. The driver accepts a
  string of 24 hexadecimal digits (either case) and also the binary form, a 12-character
  string of twelve bytes, which it takes as the bytes themselves; it writes an identifier
  as 24 lower-case hexadecimal digits, the canonical form.
\<close>

type_synonym oid = "nat list"

definition is_ascii :: "char \<Rightarrow> bool" where
  "is_ascii c = ((of_char c :: nat) < 128)"

definition ObjectId_isValid :: "string \<Rightarrow> bool" where
  "ObjectId_isValid s =
     ((length s = 12 \<and> list_all is_ascii s) \<or> (length s = 24 \<and> list_all is_hex_digit s))"

fun from_hex :: "string \<Rightarrow> nat list" where
  "from_hex (a # b # r) = (16 * hex_val a + hex_val b) # from_hex r"
| "from_hex _ = []"

text \<open>\<open>new ObjectId(s)\<close>; \<open>None\<close> is the exception on a string that is not valid.\<close>

definition ObjectId :: "string \<Rightarrow> oid option" where
  "ObjectId s =
     (if length s = 12 \<and> list_all is_ascii s then Some (map of_char s)
      else if length s = 24 \<and> list_all is_hex_digit s then Some (from_hex s)
      else None)"

definition hex_digit :: "nat \<Rightarrow> char" where
  "hex_digit n = ''0123456789abcdef'' ! n"

text \<open>\<open>String(oid)\<close>\<close>

definition toHexString :: "oid \<Rightarrow> string" where
  "toHexString bs = concat (map (\<lambda>b. [hex_digit (b div 16), hex_digit (b mod 16)]) bs)"

text \<open>
  \<open>isValidObjectId\<close> of the description/quantity application:
  \<open>ObjectId.isValid(id) && String(new ObjectId(id)) === id\<close>.
\<close>

definition isValidObjectId :: "string \<Rightarrow> bool" where
  "isValidObjectId ident =
     (ObjectId_isValid ident
      \<and> (case ObjectId ident of Some i \<Rightarrow> toHexString i = ident | None \<Rightarrow> False))"

text \<open>\<open>isValidId\<close> of the items application; the products application calls
  \<open>ObjectId.isValid\<close> in place.\<close>

definition isValidId :: "string \<Rightarrow> bool" where
  "isValidId ident = ObjectId_isValid ident"

fun valid_id :: "variant \<Rightarrow> string \<Rightarrow> bool" where
  "valid_id Controllers ident = isValidObjectId ident"
| "valid_id Products ident = ObjectId_isValid ident"
| "valid_id Items ident = isValidId ident"

definition is_lower_hex :: "char \<Rightarrow> bool" where
  "is_lower_hex c = (c \<in> set ''0123456789abcdef'')"

section \<open>Storage and the update handlers\<close>

text \<open>
  Modelled from the spec: the storage engine is an external collaborator. A collection
  holds documents found by identifier; a document is its fields in order, \<open>_id\<close> and
  \<open>createdAt\<close> among them. An update with \<open>$set\<close> assigns each field of its payload in the
  matched document and leaves every other field; it matches nothing when no document has
  the identifier (\<open>matchedCount === 0\<close>, or a null \<open>result.value\<close>).
\<close>

type_synonym doc = fields

type_synonym collection = "(oid \<times> doc) list"

definition set_fields :: "doc \<Rightarrow> fields \<Rightarrow> doc" where
  "set_fields d p = foldl (\<lambda>d (k, v). AList.update k v d) d p"

definition updateOne :: "collection \<Rightarrow> oid \<Rightarrow> fields \<Rightarrow> (doc \<times> collection) option" where
  "updateOne db i p =
     (case map_of db i of
        None \<Rightarrow> None
      | Some d \<Rightarrow> Some (set_fields d p, AList.update i (set_fields d p) db))"

datatype response = Fail nat string | Success nat doc

text \<open>
  The part every update handler repeats after its identifier check: 400 with the
  validation message, otherwise the update by \<open>new ObjectId(id)\<close>, 404 when nothing
  matched, 200 with the document after the update; 500 from the \<open>catch\<close>.
\<close>

definition run_update ::
  "collection \<Rightarrow> string \<Rightarrow> outcome \<Rightarrow> string \<Rightarrow> string \<Rightarrow> response \<times> collection" where
  "run_update db ident out not_found server_error =
     (case out of
        Reject e \<Rightarrow> (Fail 400 e, db)
      | Throw \<Rightarrow> (Fail 500 server_error, db)
      | NoRoute \<Rightarrow> (Fail 404 ''Route not found'', db)
      | Payload p \<Rightarrow>
          (case ObjectId ident of
             None \<Rightarrow> (Fail 500 server_error, db)
           | Some i \<Rightarrow>
               (case updateOne db i p of
                  None \<Rightarrow> (Fail 404 not_found, db)
                | Some (d, db') \<Rightarrow> (Success 200 d, db'))))"

definition putItem :: "collection \<Rightarrow> string \<Rightarrow> jsval \<Rightarrow> nat \<Rightarrow> response \<times> collection" where
  "putItem db ident body t =
     (if \<not> isValidObjectId ident then (Fail 400 ''Invalid ID'', db)
      else run_update db ident (putItem_set body t) ''Not found'' ''Server error'')"

definition patchItem :: "collection \<Rightarrow> string \<Rightarrow> jsval \<Rightarrow> nat \<Rightarrow> response \<times> collection" where
  "patchItem db ident body t =
     (if \<not> isValidObjectId ident then (Fail 400 ''Invalid ID'', db)
      else run_update db ident (patchItem_set body t) ''Not found'' ''Server error'')"

definition put_products :: "collection \<Rightarrow> string \<Rightarrow> jsval \<Rightarrow> nat \<Rightarrow> response \<times> collection" where
  "put_products db ident body t =
     (if \<not> ObjectId_isValid ident then (Fail 400 ''Invalid id'', db)
      else run_update db ident (put_products_set body t) ''Product not found''
             ''Internal server error'')"

definition put_items :: "collection \<Rightarrow> string \<Rightarrow> jsval \<Rightarrow> nat \<Rightarrow> response \<times> collection" where
  "put_items db ident body t =
     (if \<not> isValidId ident then (Fail 400 ''Invalid id'', db)
      else run_update db ident (put_items_set body t) ''Item not found'' ''Internal server error'')"

definition patch_items :: "collection \<Rightarrow> string \<Rightarrow> jsval \<Rightarrow> nat \<Rightarrow> response \<times> collection" where
  "patch_items db ident body t =
     (if \<not> isValidId ident then (Fail 400 ''Invalid id'', db)
      else run_update db ident (patch_items_set body t) ''Item not found''
             ''Internal server error'')"

text \<open>The update handler of an application for a mode; no other verb is routed to an
  identifier path with a body.\<close>

fun update ::
  "variant \<Rightarrow> mode \<Rightarrow> collection \<Rightarrow> string \<Rightarrow> jsval \<Rightarrow> nat \<Rightarrow> response \<times> collection" where
  "update Controllers Replace db ident body t = putItem db ident body t"
| "update Controllers Partial db ident body t = patchItem db ident body t"
| "update Products Replace db ident body t = put_products db ident body t"
| "update Items Replace db ident body t = put_items db ident body t"
| "update Items Partial db ident body t = patch_items db ident body t"
| "update _ _ db ident body t = (Fail 404 ''Route not found'', db)"

text \<open>A collection with the \<open>updatedAt\<close> field of every document left out.\<close>

definition ignoring_updatedAt :: "collection \<Rightarrow> collection" where
  "ignoring_updatedAt db = map (\<lambda>(i, d). (i, filter (\<lambda>(k, v). k \<noteq> ''updatedAt'') d)) db"

text \<open>An outcome that is a 400 with a validation message.\<close>

fun rejected :: "outcome \<Rightarrow> bool" where
  "rejected (Reject _) = True"
| "rejected _ = False"

section \<open>Properties of the identifier validators\<close>

lemma hex_digit_hex_val: "is_lower_hex c \<Longrightarrow> hex_digit (hex_val c) = c"
proof -
  have "list_all (\<lambda>c. hex_digit (hex_val c) = c) ''0123456789abcdef''"
    by (simp add: hex_digit_def hex_val_def)
  then show "is_lower_hex c \<Longrightarrow> hex_digit (hex_val c) = c"
    unfolding is_lower_hex_def list_all_iff by blast
qed

lemma hex_val_lt: "is_hex_digit c \<Longrightarrow> hex_val c < 16"
proof -
  have "list_all (\<lambda>c. hex_val c < 16) ''0123456789abcdefABCDEF''"
    by (simp add: hex_val_def)
  then show "is_hex_digit c \<Longrightarrow> hex_val c < 16"
    unfolding is_hex_digit_def list_all_iff by blast
qed

lemma lower_is_hex: "is_lower_hex c \<Longrightarrow> is_hex_digit c"
  unfolding is_lower_hex_def is_hex_digit_def by auto

lemma hex_digit_lower: "n < 16 \<Longrightarrow> is_lower_hex (hex_digit n)"
proof -
  have "list_all (\<lambda>n. is_lower_hex (hex_digit n)) [0..<16]"
    by (simp add: is_lower_hex_def hex_digit_def upt_conv_Cons)
  then show "n < 16 \<Longrightarrow> is_lower_hex (hex_digit n)"
    unfolding list_all_iff by simp
qed

lemma toHexString_from_hex:
  "even (length s) \<Longrightarrow> list_all is_lower_hex s \<Longrightarrow> toHexString (from_hex s) = s"
proof (induction s rule: from_hex.induct)
  case (1 a b r)
  then have a: "is_lower_hex a" and b: "is_lower_hex b" and r: "list_all is_lower_hex r"
    and e: "even (length r)" by simp_all
  have "hex_val b < 16" using b by (simp add: hex_val_lt lower_is_hex)
  then have "(16 * hex_val a + hex_val b) div 16 = hex_val a"
    and "(16 * hex_val a + hex_val b) mod 16 = hex_val b" by simp_all
  moreover have "toHexString (from_hex r) = r" using 1 e r by simp
  ultimately show ?case using a b
    by (simp add: toHexString_def hex_digit_hex_val)
qed (simp_all add: toHexString_def)

lemma from_hex_lt:
  "list_all is_hex_digit s \<Longrightarrow> list_all (\<lambda>b. b < 256) (from_hex s)"
proof (induction s rule: from_hex.induct)
  case (1 a b r)
  then have "hex_val a < 16" "hex_val b < 16" by (simp_all add: hex_val_lt)
  then have "16 * hex_val a + hex_val b < 256" by simp
  with 1 show ?case by simp
qed simp_all

lemma toHexString_lower:
  "list_all (\<lambda>b. b < 256) bs \<Longrightarrow> list_all is_lower_hex (toHexString bs)"
proof (induction bs)
  case (Cons b bs)
  then have "b < 256" by simp
  then have "b div 16 < 16" "b mod 16 < 16" by arith+
  then show ?case using Cons by (simp add: toHexString_def hex_digit_lower)
qed (simp add: toHexString_def)

lemma length_toHexString: "length (toHexString bs) = 2 * length bs"
  by (induction bs) (simp_all add: toHexString_def)

text \<open>
  Claim C2, as the code has it. The validator of the description/quantity application,
  \<open>isValidObjectId\<close>, is true exactly for the canonical form: 24 lower-case hexadecimal
  digits (what parses and is written back unchanged). The validators of the two price
  applications (\<open>isValidId\<close>, and \<open>ObjectId.isValid\<close> called in place) only ask the driver:
  they are true for the canonical form, and also for 24 hexadecimal digits with an
  upper-case letter and for the 12-character binary form.
\<close>

theorem isValidObjectId_canonical:
  "(isValidObjectId s \<longleftrightarrow> length s = 24 \<and> list_all is_lower_hex s) \<and>
   (isValidId s \<longleftrightarrow>
      isValidObjectId s
      \<or> (length s = 24 \<and> list_all is_hex_digit s \<and> \<not> list_all is_lower_hex s)
      \<or> (length s = 12 \<and> list_all is_ascii s)) \<and>
   (valid_id Products s \<longleftrightarrow> isValidId s)"
proof -
  have A: "isValidObjectId s \<longleftrightarrow> length s = 24 \<and> list_all is_lower_hex s"
  proof
    assume v: "isValidObjectId s"
    show "length s = 24 \<and> list_all is_lower_hex s"
    proof (cases "length s = 12 \<and> list_all is_ascii s")
      case True
      with v have "toHexString (map of_char s) = s"
        by (simp add: isValidObjectId_def ObjectId_def)
      then have "length (toHexString (map of_char s)) = length s" by simp
      with True show ?thesis by (simp add: length_toHexString)
    next
      case False
      with v have h: "length s = 24" "list_all is_hex_digit s"
        and rt: "toHexString (from_hex s) = s"
        by (auto simp: isValidObjectId_def ObjectId_def ObjectId_isValid_def split: if_splits)
      from h(2) have "list_all is_lower_hex (toHexString (from_hex s))"
        by (intro toHexString_lower from_hex_lt)
      with rt h(1) show ?thesis by simp
    qed
  next
    assume c: "length s = 24 \<and> list_all is_lower_hex s"
    then have hx: "list_all is_hex_digit s"
      by (auto simp: list_all_iff lower_is_hex)
    from c have "toHexString (from_hex s) = s"
      by (intro toHexString_from_hex) simp_all
    with c hx show "isValidObjectId s"
      by (simp add: isValidObjectId_def ObjectId_def ObjectId_isValid_def)
  qed
  have L: "list_all is_lower_hex s \<Longrightarrow> list_all is_hex_digit s"
    by (auto simp: list_all_iff lower_is_hex)
  have B: "isValidId s \<longleftrightarrow>
      isValidObjectId s
      \<or> (length s = 24 \<and> list_all is_hex_digit s \<and> \<not> list_all is_lower_hex s)
      \<or> (length s = 12 \<and> list_all is_ascii s)"
    unfolding A using L by (auto simp: isValidId_def ObjectId_isValid_def)
  show ?thesis using A B by (simp add: isValidId_def)
qed

theorem isValidObjectId_canonical_witness:
  "isValidObjectId ''507f1f77bcf86cd799439011'' \<and>
   \<not> isValidObjectId ''507F1F77BCF86CD799439011'' \<and>
   isValidId ''507F1F77BCF86CD799439011'' \<and>
   valid_id Products ''abcdefghijkl''"
proof -
  have 1: "length ''507f1f77bcf86cd799439011'' = 24 \<and> list_all is_lower_hex ''507f1f77bcf86cd799439011''"
    by (simp add: is_lower_hex_def)
  have 2: "\<not> list_all is_lower_hex ''507F1F77BCF86CD799439011''"
    by (simp add: is_lower_hex_def)
  have 3: "length ''507F1F77BCF86CD799439011'' = 24 \<and> list_all is_hex_digit ''507F1F77BCF86CD799439011''"
    by (simp add: is_hex_digit_def)
  have 4: "length ''abcdefghijkl'' = 12 \<and> list_all is_ascii ''abcdefghijkl''"
    by (simp add: is_ascii_def)
  show ?thesis
    using isValidObjectId_canonical [of "''507f1f77bcf86cd799439011''"]
      isValidObjectId_canonical [of "''507F1F77BCF86CD799439011''"]
      isValidObjectId_canonical [of "''abcdefghijkl''"] 1 2 3 4
    by blast
qed

text \<open>
  Claim C2 as stated fails for \<open>isValidId\<close>: a 12-character string that is no
  hexadecimal form at all is accepted, and names the identifier whose canonical form is
  another string.
\<close>

theorem isValidId_binary_form:
  "isValidId ''abcdefghijkl'' \<and> valid_id Products ''abcdefghijkl'' \<and>
   length ''abcdefghijkl'' = 12 \<and>
   ObjectId ''abcdefghijkl'' = Some [97, 98, 99, 100, 101, 102, 103, 104, 105, 106, 107, 108] \<and>
   toHexString [97, 98, 99, 100, 101, 102, 103, 104, 105, 106, 107, 108]
     = ''6162636465666768696a6b6c''"
  by (simp add: isValidId_def ObjectId_isValid_def ObjectId_def is_ascii_def toHexString_def
      hex_digit_def)

section \<open>Properties of the handlers\<close>

lemma trim_Nil [simp]: "trim [] = []"
  by (simp add: trim_def)

text \<open>
  Claim C6, as the code has it: for every string \<open>s\<close> that is not empty after trimming,
  creating from the body \<open>{name: s}\<close> succeeds in each application, the stored name is
  \<open>s\<close> trimmed, and the other fields get their defaults.
\<close>

theorem create_name_only:
  assumes "trim s \<noteq> []"
  shows "handle Controllers Create (JObj [(''name'', JStr s)]) t1 t2 =
           Payload [(''name'', JStr (trim s)), (''description'', JStr []),
                    (''quantity'', JNum (Fin 0)), (''createdAt'', JDate t1),
                    (''updatedAt'', JDate t2)]
       \<and> handle Products Create (JObj [(''name'', JStr s)]) t1 t2 =
           Payload [(''name'', JStr (trim s)), (''price'', JNum (Fin 0)),
                    (''category'', JStr ''general''), (''createdAt'', JDate t1),
                    (''updatedAt'', JDate t2)]
       \<and> handle Items Create (JObj [(''name'', JStr s)]) t1 t2 =
           Payload [(''name'', JStr (trim s)), (''price'', JNum (Fin 0)),
                    (''category'', JStr ''general''), (''createdAt'', JDate t1),
                    (''updatedAt'', JDate t1)]"
proof -
  from assms have ne: "s \<noteq> []" by auto
  from assms ne have "handle Controllers Create (JObj [(''name'', JStr s)]) t1 t2 =
           Payload [(''name'', JStr (trim s)), (''description'', JStr []),
                    (''quantity'', JNum (Fin 0)), (''createdAt'', JDate t1),
                    (''updatedAt'', JDate t2)]"
    by (simp add: createItem_def validateItemFull_def nullish_or_def)
  moreover from assms ne have "handle Products Create (JObj [(''name'', JStr s)]) t1 t2 =
           Payload [(''name'', JStr (trim s)), (''price'', JNum (Fin 0)),
                    (''category'', JStr ''general''), (''createdAt'', JDate t1),
                    (''updatedAt'', JDate t2)]"
    by (simp add: post_products_def)
  moreover from assms ne have "handle Items Create (JObj [(''name'', JStr s)]) t1 t2 =
           Payload [(''name'', JStr (trim s)), (''price'', JNum (Fin 0)),
                    (''category'', JStr ''general''), (''createdAt'', JDate t1),
                    (''updatedAt'', JDate t1)]"
    by (simp add: post_items_def validateItemForCreate_def opt_prop_def)
  ultimately show ?thesis by simp
qed

theorem create_name_only_witness:
  "trim '' Widget '' \<noteq> [] \<and>
   handle Products Create (JObj [(''name'', JStr '' Widget '')]) 1 2 =
     Payload [(''name'', JStr ''Widget''), (''price'', JNum (Fin 0)),
              (''category'', JStr ''general''), (''createdAt'', JDate 1), (''updatedAt'', JDate 2)]"
proof -
  have t: "trim '' Widget '' = ''Widget''" by code_simp
  show ?thesis using create_name_only [of "'' Widget ''" 1 2] by (simp add: t)
qed

text \<open>
  Claim C6 as stated fails: a string of one space is not empty, and creating from it is
  rejected by each application.
\<close>

theorem blank_name_rejected:
  "'' '' \<noteq> [] \<and>
   handle Controllers Create (JObj [(''name'', JStr '' '')]) 1 2 =
     Reject ''Field 'name' is required and must be a non-empty string'' \<and>
   handle Products Create (JObj [(''name'', JStr '' '')]) 1 2 = Reject ''name is required'' \<and>
   handle Items Create (JObj [(''name'', JStr '' '')]) 1 2 =
     Reject ''name is required (non-empty string)''"
  by code_simp

lemma ToNumber_Some: "(ToNumber v = Some n) = (\<not> conversion_throws v \<and> n = number_value v)"
  by (auto simp: ToNumber_def)

lemma ToNumber_None: "(ToNumber v = None) = conversion_throws v"
  by (simp add: ToNumber_def)

lemma ToNumber_undefined [simp]: "ToNumber JUndefined = Some NaN"
  by (simp add: ToNumber_def)

lemma picked:
  assumes "pickAllowedFields body = Some d"
  shows "get_prop (JObj d) ''name'' = get_prop body ''name''"
    and "get_prop (JObj d) ''price'' = get_prop body ''price''"
    and "get_prop (JObj d) ''category'' = get_prop body ''category''"
  using assms by (auto simp: pickAllowedFields_def split: if_splits)

lemma normalizeItem_body:
  "normalizeItem body r =
     (if nullish body then Throw
      else if r \<and> get_prop body ''name'' = JUndefined
        then Reject ''PUT requires full item: name is required''
      else if get_prop body ''name'' \<noteq> JUndefined
              \<and> (typeof (get_prop body ''name'') \<noteq> ''string''
                   \<or> \<not> truthy (JStr (trimmed (get_prop body ''name''))))
        then Reject ''name must be a non-empty string''
      else
        (case (if get_prop body ''price'' \<noteq> JUndefined then ToNumber (get_prop body ''price'')
               else Some (Fin 0)) of
           None \<Rightarrow> Throw
         | Some p \<Rightarrow>
             if get_prop body ''price'' \<noteq> JUndefined \<and> (isNaN p \<or> negative p)
               then Reject ''price must be a non-negative number''
             else if get_prop body ''category'' \<noteq> JUndefined
                     \<and> typeof (get_prop body ''category'') \<noteq> ''string''
               then Reject ''category must be a string''
             else Payload
                    ((if get_prop body ''name'' \<noteq> JUndefined
                      then [(''name'', JStr (trimmed (get_prop body ''name'')))] else [])
                     @ (if get_prop body ''price'' \<noteq> JUndefined then [(''price'', JNum p)] else [])
                     @ (if get_prop body ''category'' \<noteq> JUndefined
                        then [(''category'',
                               if truthy (JStr (trimmed (get_prop body ''category'')))
                               then JStr (trimmed (get_prop body ''category''))
                               else JStr ''general'')]
                        else []))))"
proof (cases "pickAllowedFields body")
  case None
  then show ?thesis by (simp add: normalizeItem_def pickAllowedFields_def split: if_splits)
next
  case (Some d)
  then have nn: "\<not> nullish body" by (simp add: pickAllowedFields_def split: if_splits)
  show ?thesis
    unfolding normalizeItem_def Some option.case Let_def picked [OF Some]
    using nn by simp
qed

lemma join_single [simp]: "join sep [x] = x"
  by simp

lemma price_rejected_products:
  assumes "get_prop body ''price'' \<noteq> JUndefined"
    and "ToNumber (get_prop body ''price'') = Some n"
    and "isNaN n \<or> negative n"
  shows "rejected (post_products body t1 t2)" and "rejected (put_products_set body t1)"
    and "typeof (get_prop body ''name'') = ''string'' \<Longrightarrow> trimmed (get_prop body ''name'') \<noteq> [] \<Longrightarrow>
           post_products body t1 t2 = Reject ''price must be a non-negative number''
           \<and> put_products_set body t1 = Reject ''price must be a non-negative number''"
proof -
  from assms(1) have nn: "\<not> nullish body" by (cases body) simp_all
  show "rejected (post_products body t1 t2)"
    using assms nn by (simp add: post_products_def Let_def)
  show "rejected (put_products_set body t1)"
    using assms nn by (simp add: put_products_set_def Let_def)
  assume n: "typeof (get_prop body ''name'') = ''string''" "trimmed (get_prop body ''name'') \<noteq> []"
  then have "truthy (get_prop body ''name'')"
    by (cases "get_prop body ''name''") auto
  with n assms nn show "post_products body t1 t2 = Reject ''price must be a non-negative number''
           \<and> put_products_set body t1 = Reject ''price must be a non-negative number''"
    by (simp add: post_products_def put_products_set_def Let_def)
qed

lemma price_rejected_items:
  assumes "get_prop body ''price'' \<noteq> JUndefined"
    and "ToNumber (get_prop body ''price'') = Some n"
    and "isNaN n \<or> negative n"
  shows "rejected (post_items body t1)" and "rejected (put_items_set body t1)"
    and "rejected (patch_items_set body t1)"
    and "typeof (get_prop body ''name'') = ''string'' \<Longrightarrow> trimmed (get_prop body ''name'') \<noteq> [] \<Longrightarrow>
         get_prop body ''category'' = JUndefined \<or> typeof (get_prop body ''category'') = ''string'' \<Longrightarrow>
           post_items body t1 = Reject ''price must be a non-negative number''
           \<and> put_items_set body t1 = Reject ''price must be a non-negative number''
           \<and> patch_items_set body t1 = Reject ''price must be a non-negative number''"
proof -
  from assms(1) obtain kvs where b: "body = JObj kvs" by (cases body) simp_all
  then have nn: "\<not> nullish body" by simp
  obtain es where es: "validateItemForCreate body = Some es"
    and pe: "''price must be a non-negative number'' \<in> set es"
    using assms nn by (simp add: validateItemForCreate_def opt_prop_def)
  from pe have "es \<noteq> []" by auto
  with es show "rejected (post_items body t1)"
    by (simp add: post_items_def)
  show "rejected (put_items_set body t1)"
    using assms nn by (simp add: put_items_set_def normalizeItem_body)
  show "rejected (patch_items_set body t1)"
    using assms nn by (simp add: patch_items_set_def normalizeItem_body)
  assume n: "typeof (get_prop body ''name'') = ''string''" "trimmed (get_prop body ''name'') \<noteq> []"
    and c: "get_prop body ''category'' = JUndefined \<or> typeof (get_prop body ''category'') = ''string''"
  from n have tr: "truthy (get_prop body ''name'')" and nu: "get_prop body ''name'' \<noteq> JUndefined"
    by (cases "get_prop body ''name''"; auto)+
  have "validateItemForCreate body = Some [''price must be a non-negative number'']"
    using assms nn n tr c b by (auto simp: validateItemForCreate_def opt_prop_def)
  then have 1: "post_items body t1 = Reject ''price must be a non-negative number''"
    by (simp add: post_items_def)
  have 2: "put_items_set body t1 = Reject ''price must be a non-negative number''"
    using assms nn n nu by (simp add: put_items_set_def normalizeItem_body)
  have 3: "patch_items_set body t1 = Reject ''price must be a non-negative number''"
    using assms nn n nu by (simp add: patch_items_set_def normalizeItem_body)
  from 1 2 3 show "post_items body t1 = Reject ''price must be a non-negative number''
           \<and> put_items_set body t1 = Reject ''price must be a non-negative number''
           \<and> patch_items_set body t1 = Reject ''price must be a non-negative number''"
    by simp
qed

lemma quantity_rejected:
  assumes "get_prop body ''quantity'' \<noteq> JUndefined"
    and "typeof (get_prop body ''quantity'') \<noteq> ''number''"
  shows "rejected (createItem body t1 t2)" and "rejected (putItem_set body t1)"
    and "rejected (patchItem_set body t1)"
    and "typeof (get_prop body ''name'') = ''string'' \<Longrightarrow> trimmed (get_prop body ''name'') \<noteq> [] \<Longrightarrow>
         get_prop body ''description'' = JUndefined \<or> typeof (get_prop body ''description'') = ''string'' \<Longrightarrow>
           createItem body t1 t2 = Reject ''Field 'quantity' must be a number''
           \<and> putItem_set body t1 = Reject ''Field 'quantity' must be a number''"
proof -
  from assms(1) obtain kvs where b: "body = JObj kvs" by (cases body) simp_all
  have "validateItemFull body \<noteq> None"
    using assms b by (simp add: validateItemFull_def)
  then obtain e where e: "validateItemFull body = Some e" by auto
  then show "rejected (createItem body t1 t2)" and "rejected (putItem_set body t1)"
    by (simp_all add: createItem_def putItem_set_def)
  have "validateItemPartial body \<noteq> None"
    using assms b by (simp add: validateItemPartial_def split: option.splits)
  then obtain e' where "validateItemPartial body = Some e'" by auto
  then show "rejected (patchItem_set body t1)"
    by (simp add: patchItem_set_def)
  assume n: "typeof (get_prop body ''name'') = ''string''" "trimmed (get_prop body ''name'') \<noteq> []"
    and c: "get_prop body ''description'' = JUndefined \<or> typeof (get_prop body ''description'') = ''string''"
  from n have tr: "truthy (get_prop body ''name'')"
    by (cases "get_prop body ''name''"; auto)
  have "validateItemFull body = Some ''Field 'quantity' must be a number''"
    using assms b n tr c by (auto simp: validateItemFull_def)
  then show "createItem body t1 t2 = Reject ''Field 'quantity' must be a number''
           \<and> putItem_set body t1 = Reject ''Field 'quantity' must be a number''"
    by (simp add: createItem_def putItem_set_def)
qed

text \<open>
  Claim C1, as the code has it. In the two price applications, in every mode they route,
  a body whose price is present and for which \<open>Number(price)\<close> evaluates to NaN or to a
  negative number is rejected with a validation error; the error is the
  non-negative-number message when the name is a non-empty string and the category is
  absent or a string. In the description/quantity application a present quantity is
  rejected when its type is not number, with the must-be-a-number message in Create and
  Replace when the name and the description pass.
\<close>

theorem numeric_field_rejected:
  "(get_prop body ''price'' \<noteq> JUndefined
      \<and> ToNumber (get_prop body ''price'') = Some n \<and> (isNaN n \<or> negative n)
      \<and> (v = Products \<and> m \<noteq> Partial \<or> v = Items)
    \<longrightarrow> rejected (handle v m body t1 t2)
        \<and> (typeof (get_prop body ''name'') = ''string'' \<and> trimmed (get_prop body ''name'') \<noteq> []
             \<and> (get_prop body ''category'' = JUndefined
                  \<or> typeof (get_prop body ''category'') = ''string'')
           \<longrightarrow> handle v m body t1 t2 = Reject ''price must be a non-negative number''))
   \<and> (get_prop body ''quantity'' \<noteq> JUndefined \<and> typeof (get_prop body ''quantity'') \<noteq> ''number''
    \<longrightarrow> rejected (handle Controllers m body t1 t2)
        \<and> (m \<noteq> Partial \<and> typeof (get_prop body ''name'') = ''string''
             \<and> trimmed (get_prop body ''name'') \<noteq> []
             \<and> (get_prop body ''description'' = JUndefined
                  \<or> typeof (get_prop body ''description'') = ''string'')
           \<longrightarrow> handle Controllers m body t1 t2 = Reject ''Field 'quantity' must be a number''))"
proof (intro conjI impI)
  assume h: "get_prop body ''price'' \<noteq> JUndefined
      \<and> ToNumber (get_prop body ''price'') = Some n \<and> (isNaN n \<or> negative n)
      \<and> (v = Products \<and> m \<noteq> Partial \<or> v = Items)"
  then show "rejected (handle v m body t1 t2)"
    using price_rejected_products(1,2) price_rejected_items(1,2,3)
    by (cases v; cases m) auto
  assume "typeof (get_prop body ''name'') = ''string'' \<and> trimmed (get_prop body ''name'') \<noteq> []
             \<and> (get_prop body ''category'' = JUndefined
                  \<or> typeof (get_prop body ''category'') = ''string'')"
  with h show "handle v m body t1 t2 = Reject ''price must be a non-negative number''"
    using price_rejected_products(3) price_rejected_items(4)
    by (cases v; cases m) auto
next
  assume h: "get_prop body ''quantity'' \<noteq> JUndefined \<and> typeof (get_prop body ''quantity'') \<noteq> ''number''"
  then show "rejected (handle Controllers m body t1 t2)"
    using quantity_rejected(1,2,3)
    by (cases m) auto
  assume "m \<noteq> Partial \<and> typeof (get_prop body ''name'') = ''string''
             \<and> trimmed (get_prop body ''name'') \<noteq> []
             \<and> (get_prop body ''description'' = JUndefined
                  \<or> typeof (get_prop body ''description'') = ''string'')"
  with h show "handle Controllers m body t1 t2 = Reject ''Field 'quantity' must be a number''"
    using quantity_rejected(4)
    by (cases m) auto
qed

theorem numeric_field_rejected_witness:
  "get_prop (JObj [(''name'', JStr ''a''), (''price'', JNum (Fin (- 5)))]) ''price'' \<noteq> JUndefined
   \<and> ToNumber (get_prop (JObj [(''name'', JStr ''a''), (''price'', JNum (Fin (- 5)))]) ''price'')
        = Some (Fin (- 5))
   \<and> negative (Fin (- 5))
   \<and> handle Products Replace (JObj [(''name'', JStr ''a''), (''price'', JNum (Fin (- 5)))]) 1 2
        = Reject ''price must be a non-negative number''
   \<and> typeof (get_prop (JObj [(''name'', JStr ''a''), (''quantity'', JStr ''3'')]) ''quantity'')
        \<noteq> ''number''
   \<and> handle Controllers Create (JObj [(''name'', JStr ''a''), (''quantity'', JStr ''3'')]) 1 2
        = Reject ''Field 'quantity' must be a number''"
proof -
  have t: "trim ''a'' = ''a''" by code_simp
  show ?thesis
    using numeric_field_rejected
            [where body = "JObj [(''name'', JStr ''a''), (''price'', JNum (Fin (- 5)))]"
               and n = "Fin (- 5)" and v = Products and m = Replace and ?t1.0 = 1 and ?t2.0 = 2]
          numeric_field_rejected
            [where body = "JObj [(''name'', JStr ''a''), (''quantity'', JStr ''3'')]"
               and n = NaN and v = Items and m = Create and ?t1.0 = 1 and ?t2.0 = 2]
    by (simp add: t ToNumber_def)
qed

text \<open>
  Claim C1 as stated fails: the description/quantity application stores a negative
  quantity, and the price applications store \<open>true\<close> as the price 1 and accept an
  infinite price.
\<close>

theorem negative_quantity_accepted:
  "negative (Fin (- 5)) \<and>
   handle Controllers Create (JObj [(''name'', JStr ''a''), (''quantity'', JNum (Fin (- 5)))]) 1 2 =
     Payload [(''name'', JStr ''a''), (''description'', JStr []),
              (''quantity'', JNum (Fin (- 5))), (''createdAt'', JDate 1), (''updatedAt'', JDate 2)] \<and>
   typeof (JBool True) \<noteq> ''number'' \<and>
   handle Products Create (JObj [(''name'', JStr ''a''), (''price'', JBool True)]) 1 2 =
     Payload [(''name'', JStr ''a''), (''price'', JNum (Fin 1)),
              (''category'', JStr ''general''), (''createdAt'', JDate 1), (''updatedAt'', JDate 2)] \<and>
   handle Items Replace (JObj [(''name'', JStr ''a''), (''price'', JNum PosInf)]) 1 2 =
     Payload [(''name'', JStr ''a''), (''price'', JNum PosInf),
              (''category'', JStr ''general''), (''updatedAt'', JDate 1)]"
  by code_simp

text \<open>
  Where \<open>Number(price)\<close> throws, the handlers answer from their \<open>catch\<close>: the products
  application after the name check, the items application's create whatever the name.
\<close>

lemma number_throws:
  "ToNumber (JObj [(''toString'', JNum (Fin 1))]) = None \<and>
   handle Products Create
     (JObj [(''name'', JStr ''a''), (''price'', JObj [(''toString'', JNum (Fin 1))])]) 5 6 = Throw \<and>
   handle Products Create (JObj [(''price'', JObj [(''toString'', JNum (Fin 1))])]) 5 6
     = Reject ''name is required'' \<and>
   handle Items Create (JObj [(''price'', JObj [(''toString'', JNum (Fin 1))])]) 5 6 = Throw \<and>
   handle Items Replace
     (JObj [(''name'', JStr ''a''), (''price'', JArr [JNull, JObj [(''toString'', JNull)]])]) 5 6
     = Throw"
  by code_simp

lemma patch_items_no_field:
  assumes "\<not> nullish body" "get_prop body ''name'' = JUndefined"
    "get_prop body ''price'' = JUndefined" "get_prop body ''category'' = JUndefined"
  shows "patch_items_set body t = Reject ''PATCH requires at least one field''"
  using assms by (simp add: patch_items_set_def normalizeItem_body)

lemma normalizeItem_Payload:
  assumes "normalizeItem body r = Payload u"
  obtains p where "\<not> nullish body"
    and "get_prop body ''price'' \<noteq> JUndefined \<Longrightarrow> ToNumber (get_prop body ''price'') = Some p"
    and "u = (if get_prop body ''name'' \<noteq> JUndefined
              then [(''name'', JStr (trimmed (get_prop body ''name'')))] else [])
             @ (if get_prop body ''price'' \<noteq> JUndefined then [(''price'', JNum p)] else [])
             @ (if get_prop body ''category'' \<noteq> JUndefined
                then [(''category'',
                       if truthy (JStr (trimmed (get_prop body ''category'')))
                       then JStr (trimmed (get_prop body ''category''))
                       else JStr ''general'')]
                else [])"
    and "r \<Longrightarrow> get_prop body ''name'' \<noteq> JUndefined"
    and "get_prop body ''category'' \<noteq> JUndefined \<Longrightarrow> typeof (get_prop body ''category'') = ''string''"
proof -
  from assms have nn: "\<not> nullish body"
    by (simp add: normalizeItem_body split: if_splits)
  from assms nn have rn: "r \<Longrightarrow> get_prop body ''name'' \<noteq> JUndefined"
    by (auto simp: normalizeItem_body split: if_splits)
  from assms nn obtain p where
    c: "(if get_prop body ''price'' \<noteq> JUndefined then ToNumber (get_prop body ''price'')
         else Some (Fin 0)) = Some p"
    by (cases "(if get_prop body ''price'' \<noteq> JUndefined then ToNumber (get_prop body ''price'')
                else Some (Fin 0))")
       (simp_all add: normalizeItem_body split: if_splits)
  from c have pp: "get_prop body ''price'' \<noteq> JUndefined \<Longrightarrow>
                   ToNumber (get_prop body ''price'') = Some p"
    by simp
  from assms nn have cat: "get_prop body ''category'' \<noteq> JUndefined \<Longrightarrow>
                   typeof (get_prop body ''category'') = ''string''"
    unfolding normalizeItem_body c option.case by (simp split: if_splits)
  from assms nn have u: "u = (if get_prop body ''name'' \<noteq> JUndefined
              then [(''name'', JStr (trimmed (get_prop body ''name'')))] else [])
             @ (if get_prop body ''price'' \<noteq> JUndefined then [(''price'', JNum p)] else [])
             @ (if get_prop body ''category'' \<noteq> JUndefined
                then [(''category'',
                       if truthy (JStr (trimmed (get_prop body ''category'')))
                       then JStr (trimmed (get_prop body ''category''))
                       else JStr ''general'')]
                else [])"
    unfolding normalizeItem_body c option.case by (simp split: if_splits)
  from that [OF nn pp u rn cat] show ?thesis .
qed

lemma normalizeItem_keys:
  assumes "normalizeItem body r = Payload p"
  shows "set (map fst p) \<subseteq> {''name'', ''price'', ''category''}"
proof (rule normalizeItem_Payload [OF assms])
  fix n
  assume "p = (if get_prop body ''name'' \<noteq> JUndefined
              then [(''name'', JStr (trimmed (get_prop body ''name'')))] else [])
             @ (if get_prop body ''price'' \<noteq> JUndefined then [(''price'', JNum n)] else [])
             @ (if get_prop body ''category'' \<noteq> JUndefined
                then [(''category'',
                       if truthy (JStr (trimmed (get_prop body ''category'')))
                       then JStr (trimmed (get_prop body ''category''))
                       else JStr ''general'')]
                else [])"
  then show ?thesis by auto
qed

lemma keys_update: "fst ` set (AList.update k v al) = insert k (fst ` set al)"
  by (simp add: dom_update)

lemma get_prop_filter:
  "P k \<Longrightarrow> get_prop (JObj (filter (\<lambda>(k, x). P k) kvs)) k = get_prop (JObj kvs) k"
  by (induction kvs) auto

lemma normalizeItem_cong:
  assumes "nullish a = nullish b"
    and "get_prop a ''name'' = get_prop b ''name''"
    and "get_prop a ''price'' = get_prop b ''price''"
    and "get_prop a ''category'' = get_prop b ''category''"
  shows "normalizeItem a r = normalizeItem b r"
  by (simp only: normalizeItem_body assms)

lemma normalizeItem_filter:
  "normalizeItem (JObj (filter (\<lambda>(k, x). k \<in> {''name'', ''price'', ''category''}) kvs)) r
     = normalizeItem (JObj kvs) r"
proof (rule normalizeItem_cong)
  let ?P = "\<lambda>k. k \<in> {''name'', ''price'', ''category''}"
  show "nullish (JObj (filter (\<lambda>(k, x). ?P k) kvs)) = nullish (JObj kvs)" by simp
  show "get_prop (JObj (filter (\<lambda>(k, x). ?P k) kvs)) ''name'' = get_prop (JObj kvs) ''name''"
    by (rule get_prop_filter) simp
  show "get_prop (JObj (filter (\<lambda>(k, x). ?P k) kvs)) ''price'' = get_prop (JObj kvs) ''price''"
    by (rule get_prop_filter) simp
  show "get_prop (JObj (filter (\<lambda>(k, x). ?P k) kvs)) ''category'' = get_prop (JObj kvs) ''category''"
    by (rule get_prop_filter) simp
qed

lemma filter_insert_unknown:
  "k \<notin> {''name'', ''price'', ''category''} \<Longrightarrow>
   filter (\<lambda>(k, x). k \<in> {''name'', ''price'', ''category''}) (xs @ (k, x) # ys)
     = filter (\<lambda>(k, x). k \<in> {''name'', ''price'', ''category''}) (xs @ ys)"
  by simp

text \<open>
  Claim C3, as the code has it. In the description/quantity application a partial update
  with a body of zero keys fails with "PATCH body cannot be empty", and one with a key
  outside name, description, quantity fails with the unknown-field error naming such a
  key. In the items application a partial update with none of name, price, category
  present (a body of zero keys among them) fails with "PATCH requires at least one
  field"; keys outside the three are ignored: the outcome is that of the body without
  them, wherever they stand in it, and they never reach the payload. The products
  application routes no partial update.
\<close>

theorem partial_empty_or_unknown:
  "(truthy body \<and> typeof body = ''object'' \<longrightarrow>
      (keys body = [] \<longrightarrow>
         handle Controllers Partial body t1 t2 = Reject ''PATCH body cannot be empty'')
      \<and> (k \<in> set (keys body) \<and> k \<notin> set allowed \<longrightarrow>
           (\<exists>k'. k' \<in> set (keys body) \<and> k' \<notin> set allowed
                 \<and> handle Controllers Partial body t1 t2
                     = Reject (''Unknown field '' @ [CHR 0x27] @ k' @ [CHR 0x27]))))
   \<and> (\<not> nullish body \<and> get_prop body ''name'' = JUndefined
        \<and> get_prop body ''price'' = JUndefined \<and> get_prop body ''category'' = JUndefined \<longrightarrow>
        handle Items Partial body t1 t2 = Reject ''PATCH requires at least one field'')
   \<and> handle Items Partial (JObj kvs) t1 t2
       = handle Items Partial
           (JObj (filter (\<lambda>(k, x). k \<in> {''name'', ''price'', ''category''}) kvs)) t1 t2
   \<and> (k \<notin> {''name'', ''price'', ''category''} \<longrightarrow>
        handle Items Partial (JObj (xs @ (k, x) # ys)) t1 t2
          = handle Items Partial (JObj (xs @ ys)) t1 t2)
   \<and> (handle Items Partial body t1 t2 = Payload p \<longrightarrow>
        set (map fst p) \<subseteq> {''name'', ''price'', ''category'', ''updatedAt''})"
proof (intro conjI impI)
  assume "keys body = []" and "truthy body \<and> typeof body = ''object''"
  then show "handle Controllers Partial body t1 t2 = Reject ''PATCH body cannot be empty''"
    by (simp add: patchItem_set_def validateItemPartial_def)
next
  assume ob: "truthy body \<and> typeof body = ''object''"
    and k: "k \<in> set (keys body) \<and> k \<notin> set allowed"
  then obtain k' where f: "find (\<lambda>k. k \<notin> set allowed) (keys body) = Some k'"
    by (cases "find (\<lambda>k. k \<notin> set allowed) (keys body)") (auto simp: find_None_iff)
  then have k': "k' \<in> set (keys body) \<and> k' \<notin> set allowed"
    by (auto simp: find_Some_iff)
  from k have "keys body \<noteq> []" by auto
  with ob f have "handle Controllers Partial body t1 t2
                     = Reject (''Unknown field '' @ [CHR 0x27] @ k' @ [CHR 0x27])"
    by (simp add: patchItem_set_def validateItemPartial_def)
  with k' show "\<exists>k'. k' \<in> set (keys body) \<and> k' \<notin> set allowed
                 \<and> handle Controllers Partial body t1 t2
                     = Reject (''Unknown field '' @ [CHR 0x27] @ k' @ [CHR 0x27])"
    by blast
next
  assume "\<not> nullish body \<and> get_prop body ''name'' = JUndefined
        \<and> get_prop body ''price'' = JUndefined \<and> get_prop body ''category'' = JUndefined"
  then show "handle Items Partial body t1 t2 = Reject ''PATCH requires at least one field''"
    by (simp add: patch_items_no_field)
next
  show "handle Items Partial (JObj kvs) t1 t2
       = handle Items Partial
           (JObj (filter (\<lambda>(k, x). k \<in> {''name'', ''price'', ''category''}) kvs)) t1 t2"
    by (simp only: handle.simps patch_items_set_def normalizeItem_filter)
next
  assume "k \<notin> {''name'', ''price'', ''category''}"
  then have f: "filter (\<lambda>(k, x). k \<in> {''name'', ''price'', ''category''}) (xs @ (k, x) # ys)
                  = filter (\<lambda>(k, x). k \<in> {''name'', ''price'', ''category''}) (xs @ ys)"
    by (rule filter_insert_unknown)
  have "normalizeItem (JObj (xs @ (k, x) # ys)) False
          = normalizeItem
              (JObj (filter (\<lambda>(k, x). k \<in> {''name'', ''price'', ''category''}) (xs @ (k, x) # ys)))
              False"
    by (rule normalizeItem_filter [symmetric])
  also have "\<dots> = normalizeItem
              (JObj (filter (\<lambda>(k, x). k \<in> {''name'', ''price'', ''category''}) (xs @ ys))) False"
    by (simp only: f)
  also have "\<dots> = normalizeItem (JObj (xs @ ys)) False"
    by (rule normalizeItem_filter)
  finally have "normalizeItem (JObj (xs @ (k, x) # ys)) False = normalizeItem (JObj (xs @ ys)) False" .
  then show "handle Items Partial (JObj (xs @ (k, x) # ys)) t1 t2
          = handle Items Partial (JObj (xs @ ys)) t1 t2"
    by (simp add: patch_items_set_def)
next
  assume "handle Items Partial body t1 t2 = Payload p"
  then obtain u where u: "normalizeItem body False = Payload u"
    and p: "p = AList.update ''updatedAt'' (JDate t1) u"
    by (auto simp: patch_items_set_def split: outcome.splits if_splits)
  from normalizeItem_keys [OF u] have "fst ` set u \<subseteq> {''name'', ''price'', ''category''}"
    by simp
  then have "insert ''updatedAt'' (fst ` set u) \<subseteq> {''name'', ''price'', ''category'', ''updatedAt''}"
    by blast
  then show "set (map fst p) \<subseteq> {''name'', ''price'', ''category'', ''updatedAt''}"
    unfolding p set_map keys_update .
qed

theorem partial_empty_or_unknown_witness:
  "truthy (JObj []) \<and> typeof (JObj []) = ''object'' \<and> keys (JObj []) = []
   \<and> handle Controllers Partial (JObj []) 5 6 = Reject ''PATCH body cannot be empty''
   \<and> handle Items Partial (JObj []) 5 6 = Reject ''PATCH requires at least one field''
   \<and> ''foo'' \<in> set (keys (JObj [(''name'', JStr ''a''), (''foo'', JNull)])) \<and> ''foo'' \<notin> set allowed
   \<and> handle Controllers Partial (JObj [(''name'', JStr ''a''), (''foo'', JNull)]) 5 6
        = Reject (''Unknown field '' @ [CHR 0x27] @ ''foo'' @ [CHR 0x27])
   \<and> ''foo'' \<notin> {''name'', ''price'', ''category''}
   \<and> handle Items Partial (JObj ([(''name'', JStr ''a'')] @ (''foo'', JNull) # [])) 5 6
        = handle Items Partial (JObj ([(''name'', JStr ''a'')] @ [])) 5 6
   \<and> handle Items Partial (JObj [(''name'', JStr ''a''), (''foo'', JNull)]) 5 6
        = Payload [(''name'', JStr ''a''), (''updatedAt'', JDate 5)]
   \<and> set (map fst [(''name'', JStr ''a''), (''updatedAt'', JDate 5)])
        \<subseteq> {''name'', ''price'', ''category'', ''updatedAt''}"
proof -
  have e: "patch_items_set (JObj [(''name'', JStr ''a'')]) 5
             = Payload [(''name'', JStr ''a''), (''updatedAt'', JDate 5)]"
    by code_simp
  have e2: "patchItem_set (JObj [(''name'', JStr ''a''), (''foo'', JNull)]) 5
        = Reject (''Unknown field '' @ [CHR 0x27] @ ''foo'' @ [CHR 0x27])"
    by code_simp
  have a: "allowed = [''name'', ''description'', ''quantity'']" by (simp add: allowed_def)
  show ?thesis
    using partial_empty_or_unknown
            [where body = "JObj []" and k = "''foo''" and x = JNull
               and kvs = "[]" and xs = "[(''name'', JStr ''a'')]" and ys = "[]"
               and ?t1.0 = 5 and ?t2.0 = 6 and p = "[]"]
          partial_empty_or_unknown
            [where body = "JObj [(''name'', JStr ''a''), (''foo'', JNull)]" and k = "''foo''"
               and x = JNull and kvs = "[(''name'', JStr ''a''), (''foo'', JNull)]"
               and xs = "[(''name'', JStr ''a'')]" and ys = "[]" and ?t1.0 = 5 and ?t2.0 = 6
               and p = "[(''name'', JStr ''a''), (''updatedAt'', JDate 5)]"]
    by (simp add: e e2 a)
qed

text \<open>
  Claim C3 as stated fails: the items application accepts a partial update with the
  unrecognized key \<open>foo\<close> and drops the key.
\<close>

theorem unknown_key_dropped:
  "''foo'' \<notin> {''name'', ''price'', ''category''} \<and>
   handle Items Partial (JObj [(''name'', JStr ''a''), (''foo'', JNum (Fin 1))]) 1 2 =
     Payload [(''name'', JStr ''a''), (''updatedAt'', JDate 1)]"
  by code_simp

text \<open>
  Claim C4, as the code has it. A body whose name is absent, not a string or empty after
  trimming is rejected with a validation error in Create mode of the three applications
  and in Replace mode of the description/quantity and the items application; the Replace
  mode of the products application rejects such a name only when it is present. This is
  for a body that is not null or undefined, and for such a body too in the
  description/quantity application and in Create mode of the items application; and in
  Create mode of the items application it is for a price that \<open>Number\<close> converts without
  an exception (an absent price among them).
\<close>

theorem name_required:
  assumes "typeof (get_prop body ''name'') \<noteq> ''string'' \<or> trimmed (get_prop body ''name'') = []"
    and "m \<noteq> Partial"
    and "v = Products \<and> m = Replace \<longrightarrow> get_prop body ''name'' \<noteq> JUndefined"
    and "nullish body \<longrightarrow> v = Controllers \<or> (v = Items \<and> m = Create)"
    and "v = Items \<and> m = Create \<longrightarrow> ToNumber (get_prop body ''price'') \<noteq> None"
  shows "rejected (handle v m body t1 t2)"
proof (cases v)
  case Controllers
  from assms(1) have "validateItemFull body \<noteq> None"
    by (auto simp: validateItemFull_def)
  then obtain e where "validateItemFull body = Some e" by auto
  with Controllers assms(2) show ?thesis
    by (cases m) (simp_all add: createItem_def putItem_set_def)
next
  case Products
  with assms(4) have nn: "\<not> nullish body" by auto
  show ?thesis
  proof (cases m)
    case Create
    with Products nn assms(1) show ?thesis by (auto simp: post_products_def Let_def)
  next
    case Replace
    with Products nn assms(1,3) show ?thesis by (auto simp: put_products_set_def Let_def)
  next
    case Partial
    with assms(2) show ?thesis by simp
  qed
next
  case Items
  show ?thesis
  proof (cases m)
    case Create
    with Items assms(5) obtain n where n: "ToNumber (get_prop body ''price'') = Some n" by auto
    define q where "q = (if opt_prop body ''price'' \<noteq> JUndefined then n else Fin 0)"
    have c: "(if opt_prop body ''price'' \<noteq> JUndefined then ToNumber (get_prop body ''price'')
              else Some (Fin 0)) = Some q"
      using n by (simp add: q_def)
    from assms(1) have nm: "\<not> (truthy (opt_prop body ''name'')
                 \<and> typeof (get_prop body ''name'') = ''string''
                 \<and> truthy (JStr (trimmed (get_prop body ''name''))))"
      by auto
    have "\<exists>es. validateItemForCreate body = Some es
              \<and> ''name is required (non-empty string)'' \<in> set es"
      unfolding validateItemForCreate_def c option.case using nm by simp
    then obtain es where es: "validateItemForCreate body = Some es"
      and ne: "''name is required (non-empty string)'' \<in> set es"
      by blast
    from ne have "es \<noteq> []" by auto
    with Items Create es show ?thesis by (simp add: post_items_def)
  next
    case Replace
    with Items assms(4) have nn: "\<not> nullish body" by auto
    with Items Replace assms(1) show ?thesis
      by (auto simp: put_items_set_def normalizeItem_body)
  next
    case Partial
    with assms(2) show ?thesis by simp
  qed
qed

theorem name_required_witness:
  "trimmed (get_prop (JObj [(''name'', JStr ''  ''), (''price'', JNum (Fin 5))]) ''name'') = []
   \<and> Replace \<noteq> Partial
   \<and> get_prop (JObj [(''name'', JStr ''  ''), (''price'', JNum (Fin 5))]) ''name'' \<noteq> JUndefined
   \<and> \<not> nullish (JObj [(''name'', JStr ''  ''), (''price'', JNum (Fin 5))])
   \<and> rejected (handle Products Replace (JObj [(''name'', JStr ''  ''), (''price'', JNum (Fin 5))]) 1 2)
   \<and> ToNumber (get_prop (JObj [(''price'', JNum (Fin 5))]) ''price'') \<noteq> None
   \<and> rejected (handle Items Create (JObj [(''price'', JNum (Fin 5))]) 1 2)"
proof -
  have t: "trim ''  '' = []" by code_simp
  show ?thesis
    using name_required
            [where body = "JObj [(''name'', JStr ''  ''), (''price'', JNum (Fin 5))]"
               and v = Products and m = Replace and ?t1.0 = 1 and ?t2.0 = 2]
          name_required
            [where body = "JObj [(''price'', JNum (Fin 5))]"
               and v = Items and m = Create and ?t1.0 = 1 and ?t2.0 = 2]
    by (simp add: t ToNumber_def)
qed

text \<open>
  Claim C4 as stated fails: the Replace mode of the products application takes a body
  without a name and hands its price to the storage engine.
\<close>

theorem products_replace_without_name:
  "get_prop (JObj [(''price'', JNum (Fin 5))]) ''name'' = JUndefined \<and>
   handle Products Replace (JObj [(''price'', JNum (Fin 5))]) 1 2 =
     Payload [(''price'', JNum (Fin 5)), (''updatedAt'', JDate 1)]"
  by code_simp

lemma show_nat_0: "show_nat 0 = ''0''"
  by (simp add: show_nat.simps)

lemma validateItemPartial_None:
  assumes "validateItemPartial body = None"
  obtains kvs where "body = JObj kvs" and "fst ` set kvs \<subseteq> set allowed"
proof -
  from assms have ob: "truthy body" "typeof body = ''object''" and ne: "keys body \<noteq> []"
    and f: "find (\<lambda>k. k \<notin> set allowed) (keys body) = None"
    by (auto simp: validateItemPartial_def split: if_splits option.splits)
  from f have al: "set (keys body) \<subseteq> set allowed" by (auto simp: find_None_iff)
  show ?thesis
  proof (cases body)
    case (JObj kvs)
    with al that show ?thesis by simp
  next
    case (JArr xs)
    with ne have "xs \<noteq> []" by simp
    then have "0 \<in> set [0..<length xs]" by simp
    then have "show_nat 0 \<in> show_nat ` set [0..<length xs]" by (rule imageI)
    then have "show_nat 0 \<in> set (keys body)" using JArr by simp
    with al have "''0'' \<in> set allowed" by (auto simp: show_nat_0)
    then show ?thesis by (simp add: allowed_def)
  qed (use ob ne in simp_all)
qed

lemma patchItem_set_Payload:
  assumes "patchItem_set body t = Payload p"
  obtains kvs where "body = JObj kvs" and "fst ` set kvs \<subseteq> set allowed"
    and "fst ` set p = insert ''updatedAt'' (fst ` set kvs)"
    and "\<And>k. k \<noteq> ''updatedAt'' \<Longrightarrow> k \<noteq> ''name'' \<Longrightarrow> map_of p k = map_of kvs k"
proof -
  from assms have v: "validateItemPartial body = None"
    by (auto simp: patchItem_set_def split: option.splits)
  then obtain kvs where b: "body = JObj kvs" and al: "fst ` set kvs \<subseteq> set allowed"
    by (rule validateItemPartial_None)
  let ?d = "AList.update ''updatedAt'' (JDate t) kvs"
  from assms v b have p: "p = (if truthy (get_prop (JObj ?d) ''name'')
                       then AList.update ''name'' (JStr (trimmed (get_prop (JObj ?d) ''name''))) ?d
                       else ?d)"
    by (simp add: patchItem_set_def Let_def)
  have nm: "truthy (get_prop (JObj ?d) ''name'') \<Longrightarrow> ''name'' \<in> fst ` set kvs"
    by (auto simp: update_conv' split: option.splits dest: map_of_SomeD intro: rev_image_eqI)
  have 1: "fst ` set p = insert ''updatedAt'' (fst ` set kvs)"
    using nm unfolding p by (auto simp: dom_update)
  have 2: "\<And>k. k \<noteq> ''updatedAt'' \<Longrightarrow> k \<noteq> ''name'' \<Longrightarrow> map_of p k = map_of kvs k"
    unfolding p by (simp add: update_conv')
  from that [OF b al 1 2] show ?thesis .
qed


lemma present_keys:
  assumes "JUndefined \<notin> snd ` set kvs"
  shows "(get_prop (JObj kvs) k \<noteq> JUndefined) = (k \<in> fst ` set kvs)"
proof
  assume "get_prop (JObj kvs) k \<noteq> JUndefined"
  then obtain x where "map_of kvs k = Some x" by (cases "map_of kvs k") auto
  then have "(k, x) \<in> set kvs" by (rule map_of_SomeD)
  then show "k \<in> fst ` set kvs" by force
next
  assume "k \<in> fst ` set kvs"
  then obtain y where "(k, y) \<in> set kvs" by auto
  then obtain x where x: "map_of kvs k = Some x" by (auto dest: weak_map_of_SomeI)
  then have "(k, x) \<in> set kvs" by (rule map_of_SomeD)
  then have "x \<in> snd ` set kvs" by force
  with assms have "x \<noteq> JUndefined" by blast
  with x show "get_prop (JObj kvs) k \<noteq> JUndefined" by simp
qed

lemma normalizeItem_Payload_ex:
  assumes "normalizeItem body r = Payload u"
  shows "\<exists>n. u = (if get_prop body ''name'' \<noteq> JUndefined
              then [(''name'', JStr (trimmed (get_prop body ''name'')))] else [])
             @ (if get_prop body ''price'' \<noteq> JUndefined then [(''price'', JNum n)] else [])
             @ (if get_prop body ''category'' \<noteq> JUndefined
                then [(''category'',
                       if truthy (JStr (trimmed (get_prop body ''category'')))
                       then JStr (trimmed (get_prop body ''category''))
                       else JStr ''general'')]
                else [])
           \<and> (r \<longrightarrow> get_prop body ''name'' \<noteq> JUndefined)
           \<and> (get_prop body ''category'' \<noteq> JUndefined \<longrightarrow>
                typeof (get_prop body ''category'') = ''string'')"
  by (rule normalizeItem_Payload [OF assms]) blast

lemma put_items_set_Payload:
  assumes "put_items_set body t = Payload p"
  shows "\<exists>n. p = [(''name'', JStr (trimmed (get_prop body ''name''))),
                  (''price'', if get_prop body ''price'' \<noteq> JUndefined then JNum n else JNum (Fin 0)),
                  (''category'',
                     if get_prop body ''category'' \<noteq> JUndefined
                     then (if truthy (JStr (trimmed (get_prop body ''category'')))
                           then JStr (trimmed (get_prop body ''category''))
                           else JStr ''general'')
                     else JStr ''general''),
                  (''updatedAt'', JDate t)]
           \<and> (get_prop body ''category'' \<noteq> JUndefined \<longrightarrow>
                typeof (get_prop body ''category'') = ''string'')"
proof -
  from assms obtain u where u: "normalizeItem body True = Payload u"
    and p: "p = [(''name'', get_prop (JObj u) ''name''),
                 (''price'',
                    if get_prop (JObj u) ''price'' \<noteq> JUndefined then get_prop (JObj u) ''price''
                    else JNum (Fin 0)),
                 (''category'',
                    if get_prop (JObj u) ''category'' \<noteq> JUndefined
                    then get_prop (JObj u) ''category'' else JStr ''general''),
                 (''updatedAt'', JDate t)]"
    by (auto simp: put_items_set_def split: outcome.splits)
  from normalizeItem_Payload_ex [OF u] obtain n where
    u': "u = (if get_prop body ''name'' \<noteq> JUndefined
              then [(''name'', JStr (trimmed (get_prop body ''name'')))] else [])
             @ (if get_prop body ''price'' \<noteq> JUndefined then [(''price'', JNum n)] else [])
             @ (if get_prop body ''category'' \<noteq> JUndefined
                then [(''category'',
                       if truthy (JStr (trimmed (get_prop body ''category'')))
                       then JStr (trimmed (get_prop body ''category''))
                       else JStr ''general'')]
                else [])"
    and nm: "get_prop body ''name'' \<noteq> JUndefined"
    and cat: "get_prop body ''category'' \<noteq> JUndefined \<longrightarrow>
                typeof (get_prop body ''category'') = ''string''"
    by blast
  have "p = [(''name'', JStr (trimmed (get_prop body ''name''))),
                  (''price'', if get_prop body ''price'' \<noteq> JUndefined then JNum n else JNum (Fin 0)),
                  (''category'',
                     if get_prop body ''category'' \<noteq> JUndefined
                     then (if truthy (JStr (trimmed (get_prop body ''category'')))
                           then JStr (trimmed (get_prop body ''category''))
                           else JStr ''general'')
                     else JStr ''general''),
                  (''updatedAt'', JDate t)]"
    unfolding p u' using nm by simp
  with cat show ?thesis by blast
qed

lemma full_payload_defaults:
  assumes "handle v m body t1 t2 = Payload p"
    and "m = Create \<or> (m = Replace \<and> v \<noteq> Products)"
  shows "map_of p ''name'' = Some (JStr (trimmed (get_prop body ''name'')))"
    and "get_prop body (secondary v) = JUndefined \<Longrightarrow>
           map_of p (secondary v) = Some (default_secondary v)"
    and "get_prop body (numeric v) = JUndefined \<Longrightarrow> map_of p (numeric v) = Some (JNum (Fin 0))"
proof -
  have "map_of p ''name'' = Some (JStr (trimmed (get_prop body ''name'')))
      \<and> (get_prop body (secondary v) = JUndefined \<longrightarrow>
           map_of p (secondary v) = Some (default_secondary v))
      \<and> (get_prop body (numeric v) = JUndefined \<longrightarrow> map_of p (numeric v) = Some (JNum (Fin 0)))"
  proof (cases v)
    case Controllers
    with assms show ?thesis
      by (cases m) (auto simp: createItem_def putItem_set_def nullish_or_def split: option.splits)
  next
    case Products
    with assms show ?thesis
      by (cases m) (auto simp: post_products_def Let_def split: if_splits option.splits)
  next
    case Items
    show ?thesis
    proof (cases m)
      case Create
      with Items assms show ?thesis
        by (auto simp: post_items_def Let_def split: if_splits option.splits)
    next
      case Replace
      with Items assms(1) have "put_items_set body t1 = Payload p" by simp
      from put_items_set_Payload [OF this] Items show ?thesis by auto
    next
      case Partial
      with assms(2) show ?thesis by simp
    qed
  qed
  then show "map_of p ''name'' = Some (JStr (trimmed (get_prop body ''name'')))"
    and "get_prop body (secondary v) = JUndefined \<Longrightarrow>
           map_of p (secondary v) = Some (default_secondary v)"
    and "get_prop body (numeric v) = JUndefined \<Longrightarrow> map_of p (numeric v) = Some (JNum (Fin 0))"
    by simp_all
qed

lemma partial_payload_keys:
  assumes "handle v m body t1 t2 = Payload p"
    and "m = Partial \<or> (m = Replace \<and> v = Products)"
    and "JUndefined \<notin> snd ` set (spread body)"
  shows "fst ` set p =
           {k \<in> {''name'', secondary v, numeric v}. get_prop body k \<noteq> JUndefined}
           \<union> {''updatedAt''}"
proof (cases v)
  case Controllers
  with assms have ps: "patchItem_set body t1 = Payload p" by (cases m) simp_all
  then obtain kvs where b: "body = JObj kvs" and al: "fst ` set kvs \<subseteq> set allowed"
    and k: "fst ` set p = insert ''updatedAt'' (fst ` set kvs)"
    by (rule patchItem_set_Payload)
  from assms(3) b have "JUndefined \<notin> snd ` set kvs" by simp
  then have pk: "\<And>k. (get_prop (JObj kvs) k \<noteq> JUndefined) = (k \<in> fst ` set kvs)"
    by (rule present_keys)
  from al have "fst ` set kvs = {k \<in> {''name'', ''description'', ''quantity''}. k \<in> fst ` set kvs}"
    by (auto simp: allowed_def)
  with k show ?thesis unfolding b pk Controllers by auto
next
  case Products
  with assms have "put_products_set body t1 = Payload p" by (cases m) simp_all
  then show ?thesis unfolding Products
    by (auto simp: put_products_set_def Let_def split: if_splits option.splits)
next
  case Items
  with assms have "patch_items_set body t1 = Payload p" by (cases m) simp_all
  then obtain u where u: "normalizeItem body False = Payload u"
    and p: "p = AList.update ''updatedAt'' (JDate t1) u"
    by (auto simp: patch_items_set_def split: outcome.splits if_splits)
  from normalizeItem_Payload_ex [OF u]
  have "fst ` set u = {k \<in> {''name'', ''price'', ''category''}. get_prop body k \<noteq> JUndefined}"
    by auto
  then show ?thesis unfolding p Items by (auto simp: dom_update)
qed

text \<open>
  Claim C5, as the code has it. When a handler succeeds in Create mode (all three
  applications) or in Replace mode of the description/quantity or the items application,
  the payload holds the trimmed name, and a secondary or numeric field absent from the
  body holds its default (the empty string or "general", and 0). When a handler succeeds
  in Partial mode, or in Replace mode of the products application, the payload holds
  exactly the recognized fields present in the body, and \<open>updatedAt\<close>: nothing is
  defaulted. (A parsed body has no property whose value is \<open>undefined\<close>.)
\<close>

theorem defaults_and_presence:
  assumes "handle v m body t1 t2 = Payload p"
  shows "(m = Create \<or> (m = Replace \<and> v \<noteq> Products) \<longrightarrow>
            map_of p ''name'' = Some (JStr (trimmed (get_prop body ''name'')))
          \<and> (get_prop body (secondary v) = JUndefined \<longrightarrow>
                map_of p (secondary v) = Some (default_secondary v))
          \<and> (get_prop body (numeric v) = JUndefined \<longrightarrow>
                map_of p (numeric v) = Some (JNum (Fin 0))))
       \<and> ((m = Partial \<or> (m = Replace \<and> v = Products))
            \<and> JUndefined \<notin> snd ` set (spread body) \<longrightarrow>
            fst ` set p =
              {k \<in> {''name'', secondary v, numeric v}. get_prop body k \<noteq> JUndefined}
              \<union> {''updatedAt''})"
  using full_payload_defaults [OF assms] partial_payload_keys [OF assms] by blast

theorem defaults_and_presence_witness:
  "handle Items Replace (JObj [(''name'', JStr ''x'')]) 5 6 =
     Payload [(''name'', JStr ''x''), (''price'', JNum (Fin 0)),
              (''category'', JStr ''general''), (''updatedAt'', JDate 5)]
   \<and> get_prop (JObj [(''name'', JStr ''x'')]) ''category'' = JUndefined
   \<and> map_of [(''name'', JStr ''x''), (''price'', JNum (Fin 0)),
              (''category'', JStr ''general''), (''updatedAt'', JDate 5)] ''category''
        = Some (JStr ''general'')
   \<and> handle Controllers Partial (JObj [(''description'', JStr ''d'')]) 5 6 =
     Payload [(''description'', JStr ''d''), (''updatedAt'', JDate 5)]
   \<and> JUndefined \<notin> snd ` set (spread (JObj [(''description'', JStr ''d'')]))
   \<and> fst ` set [(''description'', JStr ''d''), (''updatedAt'', JDate 5)]
        = {''description'', ''updatedAt''}"
proof -
  have h1: "handle Items Replace (JObj [(''name'', JStr ''x'')]) 5 6 =
     Payload [(''name'', JStr ''x''), (''price'', JNum (Fin 0)),
              (''category'', JStr ''general''), (''updatedAt'', JDate 5)]"
    by code_simp
  have h2: "handle Controllers Partial (JObj [(''description'', JStr ''d'')]) 5 6 =
     Payload [(''description'', JStr ''d''), (''updatedAt'', JDate 5)]"
    by code_simp
  have g1: "get_prop (JObj [(''name'', JStr ''x'')]) ''category'' = JUndefined" by simp
  have g2: "JUndefined \<notin> snd ` set (spread (JObj [(''description'', JStr ''d'')]))" by simp
  from defaults_and_presence [OF h1] g1
  have c1: "map_of [(''name'', JStr ''x''), (''price'', JNum (Fin 0)),
              (''category'', JStr ''general''), (''updatedAt'', JDate 5)] ''category''
        = Some (JStr ''general'')"
    by simp
  from defaults_and_presence [OF h2] g2
  have c2: "fst ` set [(''description'', JStr ''d''), (''updatedAt'', JDate 5)]
        = {''description'', ''updatedAt''}"
    by auto
  from h1 g1 c1 h2 g2 c2 show ?thesis by blast
qed

text \<open>
  Claim C5 as stated fails: the Replace mode of the products application succeeds on a
  body with only a name, and its payload has neither price nor category.
\<close>

theorem products_replace_no_defaults:
  "handle Products Replace (JObj [(''name'', JStr ''a'')]) 5 6 =
     Payload [(''name'', JStr ''a''), (''updatedAt'', JDate 5)] \<and>
   map_of [(''name'', JStr ''a''), (''updatedAt'', JDate 5)] ''price'' = None \<and>
   map_of [(''name'', JStr ''a''), (''updatedAt'', JDate 5)] ''category'' = None"
  by code_simp

lemma controllers_payload_keys:
  assumes "handle Controllers m body t1 t2 = Payload p"
  shows "fst ` set p \<subseteq> {''name'', ''description'', ''quantity'', ''createdAt'', ''updatedAt''}"
proof (cases m)
  case Partial
  with assms have "patchItem_set body t1 = Payload p" by simp
  then obtain kvs where "body = JObj kvs" and "fst ` set kvs \<subseteq> set allowed"
    and "fst ` set p = insert ''updatedAt'' (fst ` set kvs)"
    by (rule patchItem_set_Payload)
  then show ?thesis by (auto simp: allowed_def)
qed (use assms in \<open>auto simp: createItem_def putItem_set_def split: option.splits\<close>)

lemma products_payload_keys:
  assumes "handle Products m body t1 t2 = Payload p"
  shows "fst ` set p \<subseteq> {''name'', ''category'', ''price'', ''createdAt'', ''updatedAt''}"
  using assms
  by (cases m) (auto simp: post_products_def put_products_set_def Let_def split: if_splits option.splits)

lemma items_payload_keys:
  assumes "handle Items m body t1 t2 = Payload p"
  shows "fst ` set p \<subseteq> {''name'', ''category'', ''price'', ''createdAt'', ''updatedAt''}"
proof (cases m)
  case Create
  with assms show ?thesis by (auto simp: post_items_def Let_def split: if_splits option.splits)
next
  case Replace
  with assms have "put_items_set body t1 = Payload p" by simp
  from put_items_set_Payload [OF this] show ?thesis by auto
next
  case Partial
  with assms obtain u where u: "normalizeItem body False = Payload u"
    and p: "p = AList.update ''updatedAt'' (JDate t1) u"
    by (auto simp: patch_items_set_def split: outcome.splits if_splits)
  from normalizeItem_keys [OF u] show ?thesis unfolding p by (auto simp: dom_update)
qed

text \<open>
  Claim C10: whatever a handler of any application hands to the storage engine, in
  Create, Replace or Partial mode, has only keys among name, the secondary field, the
  numeric field, \<open>createdAt\<close> and \<open>updatedAt\<close>; a key of the body outside the recognized
  fields is never handed on.
\<close>

theorem payload_keys_recognized:
  assumes "handle v m body t1 t2 = Payload p"
  shows "set (map fst p) \<subseteq> {''name'', secondary v, numeric v, ''createdAt'', ''updatedAt''}"
  using assms controllers_payload_keys [of m body t1 t2 p] products_payload_keys [of m body t1 t2 p]
    items_payload_keys [of m body t1 t2 p]
  by (cases v) auto

theorem payload_keys_recognized_witness:
  "handle Controllers Partial (JObj [(''name'', JStr '' a ''), (''quantity'', JNum (Fin 3))]) 5 6 =
     Payload [(''name'', JStr ''a''), (''quantity'', JNum (Fin 3)), (''updatedAt'', JDate 5)]
   \<and> set (map fst [(''name'', JStr ''a''), (''quantity'', JNum (Fin 3)), (''updatedAt'', JDate 5)])
        \<subseteq> {''name'', secondary Controllers, numeric Controllers, ''createdAt'', ''updatedAt''}"
proof -
  have h: "handle Controllers Partial (JObj [(''name'', JStr '' a ''), (''quantity'', JNum (Fin 3))]) 5 6 =
     Payload [(''name'', JStr ''a''), (''quantity'', JNum (Fin 3)), (''updatedAt'', JDate 5)]"
    by code_simp
  from h payload_keys_recognized [OF h] show ?thesis by blast
qed

lemma get_prop_JStr: "get_prop (JObj kvs) k = JStr s \<Longrightarrow> map_of kvs k = Some (JStr s)"
  by (cases "map_of kvs k") auto

text \<open>
  Claim C7, as the code has it. When a handler succeeds on a body whose secondary field
  is a string: in the two price applications the payload's category is the string
  trimmed, or "general" when that is empty; in the description/quantity application the
  payload's description is the string as it came, untrimmed.
\<close>

theorem secondary_field_stored:
  assumes "handle v m body t1 t2 = Payload p" and "get_prop body (secondary v) = JStr s"
  shows "map_of p (secondary v) =
           Some (JStr (if v = Controllers then s
                       else if trim s = [] then ''general'' else trim s))"
proof (cases v)
  case Controllers
  show ?thesis
  proof (cases m)
    case Partial
    with Controllers assms have ps: "patchItem_set body t1 = Payload p" by simp
    show ?thesis
    proof (rule patchItem_set_Payload [OF ps])
      fix kvs
      assume b: "body = JObj kvs"
        and m: "\<And>k. k \<noteq> ''updatedAt'' \<Longrightarrow> k \<noteq> ''name'' \<Longrightarrow> map_of p k = map_of kvs k"
      from assms(2) b Controllers have "map_of kvs ''description'' = Some (JStr s)"
        by (simp add: get_prop_JStr)
      with m [of "''description''"] Controllers show ?thesis by simp
    qed
  qed (use Controllers assms in
        \<open>auto simp: createItem_def putItem_set_def nullish_or_def split: option.splits\<close>)
next
  case Products
  with assms show ?thesis
    by (cases m) (auto simp: post_products_def put_products_set_def Let_def split: if_splits option.splits)
next
  case Items
  show ?thesis
  proof (cases m)
    case Create
    with Items assms show ?thesis by (auto simp: post_items_def Let_def split: if_splits option.splits)
  next
    case Replace
    with Items assms have "put_items_set body t1 = Payload p" by simp
    from put_items_set_Payload [OF this] Items assms(2) show ?thesis by auto
  next
    case Partial
    with Items assms obtain u where u: "normalizeItem body False = Payload u"
      and p: "p = AList.update ''updatedAt'' (JDate t1) u"
      by (auto simp: patch_items_set_def split: outcome.splits if_splits)
    from normalizeItem_Payload_ex [OF u] assms(2) Items have "map_of u ''category'' =
        Some (JStr (if trim s = [] then ''general'' else trim s))"
      by auto
    with Items show ?thesis unfolding p by (simp add: update_conv')
  qed
qed

theorem secondary_field_stored_witness:
  "handle Items Partial (JObj [(''category'', JStr ''  '')]) 5 6 =
     Payload [(''category'', JStr ''general''), (''updatedAt'', JDate 5)]
   \<and> get_prop (JObj [(''category'', JStr ''  '')]) (secondary Items) = JStr ''  ''
   \<and> map_of [(''category'', JStr ''general''), (''updatedAt'', JDate 5)] (secondary Items)
        = Some (JStr ''general'')
   \<and> handle Products Create (JObj [(''name'', JStr ''a''), (''category'', JStr '' toys '')]) 5 6 =
     Payload [(''name'', JStr ''a''), (''price'', JNum (Fin 0)), (''category'', JStr ''toys''),
              (''createdAt'', JDate 5), (''updatedAt'', JDate 6)]
   \<and> map_of [(''name'', JStr ''a''), (''price'', JNum (Fin 0)), (''category'', JStr ''toys''),
              (''createdAt'', JDate 5), (''updatedAt'', JDate 6)] (secondary Products)
        = Some (JStr ''toys'')"
proof -
  have h1: "handle Items Partial (JObj [(''category'', JStr ''  '')]) 5 6 =
     Payload [(''category'', JStr ''general''), (''updatedAt'', JDate 5)]"
    by code_simp
  have g1: "get_prop (JObj [(''category'', JStr ''  '')]) (secondary Items) = JStr ''  ''"
    by simp
  have t1: "trim ''  '' = []" by code_simp
  from secondary_field_stored [OF h1 g1]
  have c1: "map_of [(''category'', JStr ''general''), (''updatedAt'', JDate 5)] (secondary Items)
        = Some (JStr ''general'')"
    by (simp add: t1)
  have h2: "handle Products Create (JObj [(''name'', JStr ''a''), (''category'', JStr '' toys '')]) 5 6 =
     Payload [(''name'', JStr ''a''), (''price'', JNum (Fin 0)), (''category'', JStr ''toys''),
              (''createdAt'', JDate 5), (''updatedAt'', JDate 6)]"
    by code_simp
  have g2: "get_prop (JObj [(''name'', JStr ''a''), (''category'', JStr '' toys '')])
              (secondary Products) = JStr '' toys ''"
    by simp
  have t2: "trim '' toys '' = ''toys''" by code_simp
  from secondary_field_stored [OF h2 g2]
  have c2: "map_of [(''name'', JStr ''a''), (''price'', JNum (Fin 0)), (''category'', JStr ''toys''),
              (''createdAt'', JDate 5), (''updatedAt'', JDate 6)] (secondary Products)
        = Some (JStr ''toys'')"
    by (simp add: t2)
  from h1 g1 c1 h2 c2 show ?thesis by blast
qed

text \<open>
  Claim C7 as stated fails: the description/quantity application stores a description
  with its surrounding spaces.
\<close>

theorem description_not_trimmed:
  "trim '' d '' = ''d'' \<and>
   handle Controllers Create (JObj [(''name'', JStr ''a''), (''description'', JStr '' d '')]) 5 6 =
     Payload [(''name'', JStr ''a''), (''description'', JStr '' d ''),
              (''quantity'', JNum (Fin 0)), (''createdAt'', JDate 5), (''updatedAt'', JDate 6)]"
  by code_simp

lemma set_fields_Nil [simp]: "set_fields d [] = d"
  by (simp add: set_fields_def)

lemma set_fields_Cons [simp]: "set_fields d ((k, v) # p) = set_fields (AList.update k v d) p"
  by (simp add: set_fields_def)

lemma set_fields_append: "set_fields d (p @ q) = set_fields (set_fields d p) q"
  by (simp add: set_fields_def)

lemma map_of_set_fields_other:
  "k \<notin> fst ` set p \<Longrightarrow> map_of (set_fields d p) k = map_of d k"
proof (induction p arbitrary: d)
  case Nil
  then show ?case by simp
next
  case (Cons a p)
  obtain k' v' where a: "a = (k', v')" by (cases a)
  with Cons.prems have "k \<noteq> k'" "k \<notin> fst ` set p" by auto
  with Cons.IH [of "AList.update k' v' d"] a show ?case by (simp add: update_conv')
qed

lemma map_of_set_fields_in:
  "distinct (map fst q) \<Longrightarrow> (k, v) \<in> set q \<Longrightarrow> map_of (set_fields d q) k = Some v"
proof (induction q arbitrary: d)
  case Nil
  then show ?case by simp
next
  case (Cons a q)
  obtain k' v' where a: "a = (k', v')" by (cases a)
  show ?case
  proof (cases "(k, v) = a")
    case True
    with a Cons.prems have "k \<notin> fst ` set q" by auto
    then have "map_of (set_fields (AList.update k v d) q) k = map_of (AList.update k v d) k"
      by (rule map_of_set_fields_other)
    with True a show ?thesis by (simp add: update_conv')
  next
    case False
    with Cons.prems have "(k, v) \<in> set q" "distinct (map fst q)" by auto
    with Cons.IH [of "AList.update k' v' d"] a show ?thesis by simp
  qed
qed

lemma set_fields_triv:
  "(\<And>k v. (k, v) \<in> set q \<Longrightarrow> map_of d k = Some v) \<Longrightarrow> set_fields d q = d"
proof (induction q)
  case Nil
  then show ?case by simp
next
  case (Cons a q)
  obtain k' v' where a: "a = (k', v')" by (cases a)
  with Cons.prems have "map_of d k' = Some v'" by simp
  then have "AList.update k' v' d = d" by (rule update_triv)
  moreover have "set_fields d q = d" using Cons by simp
  ultimately show ?case using a by simp
qed

lemma strip_update:
  "filter (\<lambda>(k, v). k \<noteq> u) (AList.update u x d) = filter (\<lambda>(k, v). k \<noteq> u) d"
  by (induction d) auto

lemma ignoring_update:
  assumes "filter (\<lambda>(k, v). k \<noteq> ''updatedAt'') a = filter (\<lambda>(k, v). k \<noteq> ''updatedAt'') b"
  shows "ignoring_updatedAt (AList.update i a db) = ignoring_updatedAt (AList.update i b db)"
  using assms by (induction db) (auto simp: ignoring_updatedAt_def)

lemma update_payload_keys:
  assumes "handle v m body t1 t2 = Payload p" and "m \<noteq> Create"
  shows "fst ` set p \<subseteq> {''name'', secondary v, numeric v, ''updatedAt''}"
proof (cases m)
  case Create
  with assms show ?thesis by simp
next
  case Replace
  with assms(1) show ?thesis
    by (cases v)
       (auto simp: putItem_set_def put_products_set_def put_items_set_def Let_def
             split: option.splits if_splits outcome.splits)
next
  case Partial
  with assms(1) have "(m = Partial \<or> (m = Replace \<and> v = Products))" by simp
  show ?thesis
  proof (cases v)
    case Controllers
    with Partial assms have ps: "patchItem_set body t1 = Payload p" by simp
    show ?thesis
    proof (rule patchItem_set_Payload [OF ps])
      fix kvs
      assume "fst ` set kvs \<subseteq> set allowed"
        and "fst ` set p = insert ''updatedAt'' (fst ` set kvs)"
      with Controllers show ?thesis by (auto simp: allowed_def)
    qed
  next
    case Products
    with Partial assms show ?thesis by simp
  next
    case Items
    with Partial assms obtain u where u: "normalizeItem body False = Payload u"
      and p: "p = AList.update ''updatedAt'' (JDate t1) u"
      by (auto simp: patch_items_set_def split: outcome.splits if_splits)
    from normalizeItem_keys [OF u] Items show ?thesis unfolding p by (auto simp: dom_update)
  qed
qed

lemma run_update_Success:
  assumes "run_update db ident out nf se = (Success c d', db')"
  shows "\<exists>i d p. out = Payload p \<and> ObjectId ident = Some i \<and> map_of db i = Some d
           \<and> d' = set_fields d p \<and> db' = AList.update i d' db \<and> c = 200"
  using assms
  by (auto simp: run_update_def updateOne_def split: outcome.splits option.splits)

lemma update_Success:
  assumes "update v m db ident body t = (Success c d', db')"
  shows "\<exists>i d p. handle v m body t t = Payload p \<and> m \<noteq> Create \<and> valid_id v ident
           \<and> ObjectId ident = Some i \<and> map_of db i = Some d
           \<and> d' = set_fields d p \<and> db' = AList.update i d' db \<and> c = 200"
proof -
  have "\<exists>out nf se. run_update db ident out nf se = (Success c d', db')
          \<and> out = handle v m body t t \<and> m \<noteq> Create \<and> valid_id v ident"
    using assms
    by (cases v; cases m)
       (auto simp: putItem_def patchItem_def put_products_def put_items_def patch_items_def
             split: if_splits)
  then obtain out nf se where r: "run_update db ident out nf se = (Success c d', db')"
    and o: "out = handle v m body t t" and m: "m \<noteq> Create" and vi: "valid_id v ident"
    by blast
  from run_update_Success [OF r] o m vi show ?thesis by auto
qed

text \<open>
  Claim C8: when a full replace or a partial update succeeds, the payload handed to the
  storage engine has no \<open>_id\<close> and no \<open>createdAt\<close> key, the stored document is the old one
  with the payload's fields set, so its \<open>_id\<close> and \<open>createdAt\<close> are unchanged: no field
  other than name, the secondary field, the numeric field and \<open>updatedAt\<close> differs, and no
  other document changes.
\<close>

theorem update_frame:
  assumes "update v m db ident body t = (Success c d', db')"
  shows "\<exists>i d p. ObjectId ident = Some i \<and> map_of db i = Some d
           \<and> handle v m body t t = Payload p
           \<and> ''_id'' \<notin> fst ` set p \<and> ''createdAt'' \<notin> fst ` set p
           \<and> d' = set_fields d p \<and> map_of db' i = Some d'
           \<and> map_of d' ''_id'' = map_of d ''_id''
           \<and> map_of d' ''createdAt'' = map_of d ''createdAt''
           \<and> (\<forall>k. k \<notin> {''name'', secondary v, numeric v, ''updatedAt''} \<longrightarrow>
                  map_of d' k = map_of d k)
           \<and> (\<forall>j. j \<noteq> i \<longrightarrow> map_of db' j = map_of db j)"
proof -
  from update_Success [OF assms] obtain i d p where
    h: "handle v m body t t = Payload p" and m: "m \<noteq> Create"
    and i: "ObjectId ident = Some i" and d: "map_of db i = Some d"
    and d': "d' = set_fields d p" and db': "db' = AList.update i d' db"
    by blast
  from update_payload_keys [OF h m]
  have ks: "fst ` set p \<subseteq> {''name'', secondary v, numeric v, ''updatedAt''}" .
  have fr: "\<And>k. k \<notin> {''name'', secondary v, numeric v, ''updatedAt''} \<Longrightarrow>
              map_of d' k = map_of d k"
    unfolding d' using ks by (intro map_of_set_fields_other) blast
  have sec: "''_id'' \<noteq> secondary v" "''createdAt'' \<noteq> secondary v"
    "''_id'' \<noteq> numeric v" "''createdAt'' \<noteq> numeric v"
    by (cases v; simp)+
  then have n1: "''_id'' \<notin> {''name'', secondary v, numeric v, ''updatedAt''}"
    and n2: "''createdAt'' \<notin> {''name'', secondary v, numeric v, ''updatedAt''}"
    by simp_all
  from n1 n2 ks have np: "''_id'' \<notin> fst ` set p" "''createdAt'' \<notin> fst ` set p" by blast+
  have st: "map_of db' i = Some d'" "\<And>j. j \<noteq> i \<Longrightarrow> map_of db' j = map_of db j"
    unfolding db' by (simp_all add: update_conv')
  from i d h np d' st fr [OF n1] fr [OF n2] fr show ?thesis by blast
qed

theorem update_frame_witness:
  "update Controllers Partial
     [([80, 127, 31, 119, 188, 248, 108, 215, 153, 67, 144, 17],
      [(''_id'', JStr ''507f1f77bcf86cd799439011''),
       (''name'', JStr ''Widget''),
       (''description'', JStr []),
       (''quantity'', JNum (Fin 2)),
       (''createdAt'', JDate 3),
       (''updatedAt'', JDate 3)])]
     ''507f1f77bcf86cd799439011'' (JObj [(''quantity'', JNum (Fin 7))]) 5 =
   (Success 200
      [(''_id'', JStr ''507f1f77bcf86cd799439011''),
       (''name'', JStr ''Widget''),
       (''description'', JStr []),
       (''quantity'', JNum (Fin 7)),
       (''createdAt'', JDate 3),
       (''updatedAt'', JDate 5)],
    [([80, 127, 31, 119, 188, 248, 108, 215, 153, 67, 144, 17],
     [(''_id'', JStr ''507f1f77bcf86cd799439011''),
      (''name'', JStr ''Widget''),
      (''description'', JStr []),
      (''quantity'', JNum (Fin 7)),
      (''createdAt'', JDate 3),
      (''updatedAt'', JDate 5)])])
   \<and> map_of [(''_id'', JStr ''507f1f77bcf86cd799439011''),
            (''name'', JStr ''Widget''),
            (''description'', JStr []),
            (''quantity'', JNum (Fin 7)),
            (''createdAt'', JDate 3),
            (''updatedAt'', JDate 5)] ''createdAt''
       = Some (JDate 3)
   \<and> map_of [(''_id'', JStr ''507f1f77bcf86cd799439011''),
            (''name'', JStr ''Widget''),
            (''description'', JStr []),
            (''quantity'', JNum (Fin 7)),
            (''createdAt'', JDate 3),
            (''updatedAt'', JDate 5)] ''_id''
       = Some (JStr ''507f1f77bcf86cd799439011'')"
proof -
  have h: "update Controllers Partial
     [([80, 127, 31, 119, 188, 248, 108, 215, 153, 67, 144, 17],
      [(''_id'', JStr ''507f1f77bcf86cd799439011''),
       (''name'', JStr ''Widget''),
       (''description'', JStr []),
       (''quantity'', JNum (Fin 2)),
       (''createdAt'', JDate 3),
       (''updatedAt'', JDate 3)])]
     ''507f1f77bcf86cd799439011'' (JObj [(''quantity'', JNum (Fin 7))]) 5 =
   (Success 200
      [(''_id'', JStr ''507f1f77bcf86cd799439011''),
       (''name'', JStr ''Widget''),
       (''description'', JStr []),
       (''quantity'', JNum (Fin 7)),
       (''createdAt'', JDate 3),
       (''updatedAt'', JDate 5)],
    [([80, 127, 31, 119, 188, 248, 108, 215, 153, 67, 144, 17],
     [(''_id'', JStr ''507f1f77bcf86cd799439011''),
      (''name'', JStr ''Widget''),
      (''description'', JStr []),
      (''quantity'', JNum (Fin 7)),
      (''createdAt'', JDate 3),
      (''updatedAt'', JDate 5)])])"
    by code_simp
  have o: "ObjectId ''507f1f77bcf86cd799439011'' = Some [80, 127, 31, 119, 188, 248, 108, 215, 153, 67, 144, 17]"
    by code_simp
  from update_frame [OF h] o show ?thesis
    using h by auto
qed

lemma replace_payload_shape:
  assumes "handle v Replace body t t2 = Payload p"
  shows "\<exists>q. p = q @ [(''updatedAt'', JDate t)]
           \<and> handle v Replace body t' t2' = Payload (q @ [(''updatedAt'', JDate t')])
           \<and> distinct (map fst q) \<and> ''updatedAt'' \<notin> fst ` set q"
proof (cases v)
  case Controllers
  with assms show ?thesis
    by (auto simp: putItem_set_def split: option.splits)
next
  case Products
  with assms show ?thesis
    by (auto simp: put_products_set_def Let_def split: if_splits option.splits)
next
  case Items
  with assms show ?thesis
    by (auto simp: put_items_set_def split: outcome.splits)
qed

lemma update_Replace_run:
  assumes "valid_id v ident" and "handle v Replace body t t = Payload p"
    and "ObjectId ident = Some i" and "map_of db i = Some d"
  shows "update v Replace db ident body t
           = (Success 200 (set_fields d p), AList.update i (set_fields d p) db)"
  using assms
  by (cases v)
     (simp_all add: putItem_def put_products_def put_items_def run_update_def updateOne_def)

text \<open>
  Claim C9: Replace is idempotent. When a full replace succeeds, the same replace
  applied again to the result succeeds too, and leaves every stored document as the
  first one left it, the \<open>updatedAt\<close> field apart.
\<close>

theorem replace_idempotent:
  assumes "update v Replace db ident body t = (Success c d1, db1)"
  shows "\<exists>d2 db2. update v Replace db1 ident body t' = (Success c d2, db2)
           \<and> ignoring_updatedAt db2 = ignoring_updatedAt db1
           \<and> filter (\<lambda>(k, x). k \<noteq> ''updatedAt'') d2 = filter (\<lambda>(k, x). k \<noteq> ''updatedAt'') d1"
proof -
  from update_Success [OF assms] obtain i d p where
    h: "handle v Replace body t t = Payload p" and vi: "valid_id v ident"
    and i: "ObjectId ident = Some i" and d: "map_of db i = Some d"
    and d1: "d1 = set_fields d p" and db1: "db1 = AList.update i d1 db" and c: "c = 200"
    by blast
  from replace_payload_shape [OF h, of t' t'] obtain q where
    p: "p = q @ [(''updatedAt'', JDate t)]"
    and h': "handle v Replace body t' t' = Payload (q @ [(''updatedAt'', JDate t')])"
    and dq: "distinct (map fst q)" and nq: "''updatedAt'' \<notin> fst ` set q"
    by blast
  let ?D = "set_fields d q"
  have d1': "d1 = AList.update ''updatedAt'' (JDate t) ?D"
    unfolding d1 p by (simp add: set_fields_append)
  have inq: "\<And>k x. (k, x) \<in> set q \<Longrightarrow> map_of d1 k = Some x"
  proof -
    fix k x
    assume kx: "(k, x) \<in> set q"
    with nq have "k \<noteq> ''updatedAt''" by force
    moreover from dq kx have "map_of ?D k = Some x" by (rule map_of_set_fields_in)
    ultimately show "map_of d1 k = Some x" unfolding d1' by (simp add: update_conv')
  qed
  then have triv: "set_fields d1 q = d1" by (rule set_fields_triv)
  let ?d2 = "set_fields d1 (q @ [(''updatedAt'', JDate t')])"
  have d2: "?d2 = AList.update ''updatedAt'' (JDate t') d1"
    by (simp add: set_fields_append triv)
  have s: "filter (\<lambda>(k, x). k \<noteq> ''updatedAt'') ?d2 = filter (\<lambda>(k, x). k \<noteq> ''updatedAt'') d1"
    unfolding d2 by (rule strip_update)
  have m1: "map_of db1 i = Some d1" unfolding db1 by (simp add: update_conv')
  from update_Replace_run [OF vi h' i m1]
  have r: "update v Replace db1 ident body t' = (Success c ?d2, AList.update i ?d2 db1)"
    using c by simp
  have "AList.update i ?d2 db1 = AList.update i ?d2 db" unfolding db1 by simp
  then have "ignoring_updatedAt (AList.update i ?d2 db1) = ignoring_updatedAt (AList.update i d1 db)"
    using ignoring_update [OF s, of i db] by simp
  then have g: "ignoring_updatedAt (AList.update i ?d2 db1) = ignoring_updatedAt db1"
    unfolding db1 .
  from r g s show ?thesis by blast
qed

theorem replace_idempotent_witness:
  "update Items Replace
     [([80, 127, 31, 119, 188, 248, 108, 215, 153, 67, 144, 17],
      [(''_id'', JStr ''507f1f77bcf86cd799439011''),
       (''name'', JStr ''Widget''),
       (''price'', JNum (Fin 2)),
       (''category'', JStr ''toys''),
       (''createdAt'', JDate 3),
       (''updatedAt'', JDate 3)])]
     ''507f1f77bcf86cd799439011'' (JObj [(''name'', JStr '' Gadget ''), (''price'', JNum (Fin 7))]) 5 =
   (Success 200
      [(''_id'', JStr ''507f1f77bcf86cd799439011''),
       (''name'', JStr ''Gadget''),
       (''price'', JNum (Fin 7)),
       (''category'', JStr ''general''),
       (''createdAt'', JDate 3),
       (''updatedAt'', JDate 5)],
    [([80, 127, 31, 119, 188, 248, 108, 215, 153, 67, 144, 17],
     [(''_id'', JStr ''507f1f77bcf86cd799439011''),
      (''name'', JStr ''Gadget''),
      (''price'', JNum (Fin 7)),
      (''category'', JStr ''general''),
      (''createdAt'', JDate 3),
      (''updatedAt'', JDate 5)])])
   \<and> (\<exists>d2 db2.
         update Items Replace
           [([80, 127, 31, 119, 188, 248, 108, 215, 153, 67, 144, 17],
            [(''_id'', JStr ''507f1f77bcf86cd799439011''),
             (''name'', JStr ''Gadget''),
             (''price'', JNum (Fin 7)),
             (''category'', JStr ''general''),
             (''createdAt'', JDate 3),
             (''updatedAt'', JDate 5)])]
           ''507f1f77bcf86cd799439011'' (JObj [(''name'', JStr '' Gadget ''), (''price'', JNum (Fin 7))]) 9 = (Success 200 d2, db2)
         \<and> ignoring_updatedAt db2 =
             ignoring_updatedAt
               [([80, 127, 31, 119, 188, 248, 108, 215, 153, 67, 144, 17],
                [(''_id'', JStr ''507f1f77bcf86cd799439011''),
                 (''name'', JStr ''Gadget''),
                 (''price'', JNum (Fin 7)),
                 (''category'', JStr ''general''),
                 (''createdAt'', JDate 3),
                 (''updatedAt'', JDate 5)])]
         \<and> filter (\<lambda>(k, x). k \<noteq> ''updatedAt'') d2 =
             filter (\<lambda>(k, x). k \<noteq> ''updatedAt'')
               [(''_id'', JStr ''507f1f77bcf86cd799439011''),
                (''name'', JStr ''Gadget''),
                (''price'', JNum (Fin 7)),
                (''category'', JStr ''general''),
                (''createdAt'', JDate 3),
                (''updatedAt'', JDate 5)])"
proof -
  have h: "update Items Replace
     [([80, 127, 31, 119, 188, 248, 108, 215, 153, 67, 144, 17],
      [(''_id'', JStr ''507f1f77bcf86cd799439011''),
       (''name'', JStr ''Widget''),
       (''price'', JNum (Fin 2)),
       (''category'', JStr ''toys''),
       (''createdAt'', JDate 3),
       (''updatedAt'', JDate 3)])]
     ''507f1f77bcf86cd799439011'' (JObj [(''name'', JStr '' Gadget ''), (''price'', JNum (Fin 7))]) 5 =
   (Success 200
      [(''_id'', JStr ''507f1f77bcf86cd799439011''),
       (''name'', JStr ''Gadget''),
       (''price'', JNum (Fin 7)),
       (''category'', JStr ''general''),
       (''createdAt'', JDate 3),
       (''updatedAt'', JDate 5)],
    [([80, 127, 31, 119, 188, 248, 108, 215, 153, 67, 144, 17],
     [(''_id'', JStr ''507f1f77bcf86cd799439011''),
      (''name'', JStr ''Gadget''),
      (''price'', JNum (Fin 7)),
      (''category'', JStr ''general''),
      (''createdAt'', JDate 3),
      (''updatedAt'', JDate 5)])])"
    by code_simp
  from h replace_idempotent [OF h, of 9] show ?thesis by blast
qed

end
